theory Spec2Isabelle
  imports Complex_Main "HOL-Library.AList"
begin

section \<open>Conventions of the embedding\<close>

text \<open>
  The trading kernel is written in Python. Its dictionaries with a fixed set of keys are
  records here, its insertion-ordered dictionaries are association lists
  (\<open>map_of\<close> reads a key, \<open>AList.update\<close> writes one and appends a new key at the end,
  \<open>AList.delete\<close> removes one), and each method that mutates \<open>self\<close> takes the
  object and returns it updated.

  Prices, quantities and cash are Python floats in the source. A float is a real number
  here (NaN is outside the model, and the one infinity the code produces has a
  constructor of its own). The arithmetic of the Portfolio, whose ledger the properties
  compare for equality, rounds every result as binary64 does; the broker and the risk
  manager compare and scale amounts, and their arithmetic is read as exact. Wall-clock
  time stamps written by \<open>datetime.now()\<close> and log output are left out. An exception that the source lets
  escape is the \<open>Inl\<close> of a sum, or the first component of a pair where the state
  reached so far matters.

  The \<open>action\<close> of a signal, order or fill is a string that the code upper-cases before
  every comparison. The datatype below is that upper-cased string: the five actions
  the code names, the empty string (\<open>NoAction\<close>, falsy in Python) and any other text.
\<close>

type_synonym symbol = string

datatype action = BUY | SELL | SHORT | COVER | HOLD | NoAction | OtherAction

section \<open>Binary floating point\<close>

text \<open>
  A Python float is an IEEE 754 binary64 number, and each of \<open>+\<close>, \<open>-\<close>, \<open>*\<close>, \<open>/\<close>
  returns the exact result rounded to the nearest binary64 number, ties to the even
  significand. \<open>round64\<close> is that rounding on the reals: a significand of 53 bits, the
  smallest exponent of the subnormal numbers, and no largest exponent (overflow to
  infinity is outside the model). The ledger of the Portfolio is computed with these
  operations.
\<close>

fun bit_length :: "nat \<Rightarrow> nat" where
  "bit_length n = (if n = 0 then 0 else Suc (bit_length (n div 2)))"

declare bit_length.simps [simp del]

text \<open>For \<open>x > 0\<close>, the exponent \<open>e\<close> with \<open>2 ^ e \<le> x < 2 ^ (e + 1)\<close>.\<close>

definition floor_log2 :: "real \<Rightarrow> int" where
  "floor_log2 x =
     (if x \<ge> 1 then int (bit_length (nat \<lfloor>x\<rfloor>)) - 1
      else (let y = 1 / x; k = int (bit_length (nat \<lfloor>y\<rfloor>)) - 1
            in if y = 2 ^ nat k then - k else - (k + 1)))"

definition pow2 :: "int \<Rightarrow> real" where
  "pow2 e = (if e \<ge> 0 then 2 ^ nat e else 1 / 2 ^ nat (- e))"

definition round_half_even :: "real \<Rightarrow> int" where
  "round_half_even x =
     (let f = \<lfloor>x\<rfloor>; d = x - of_int f
      in if d < 1 / 2 then f else if d > 1 / 2 then f + 1
         else (if even f then f else f + 1))"

definition round64 :: "real \<Rightarrow> real" where
  "round64 x =
     (if x = 0 then 0
      else (let e = max (floor_log2 \<bar>x\<bar> - 52) (- 1074)
            in of_int (round_half_even (x / pow2 e)) * pow2 e))"

definition fadd :: "real \<Rightarrow> real \<Rightarrow> real" where
  "fadd x y = round64 (x + y)"

definition fsub :: "real \<Rightarrow> real \<Rightarrow> real" where
  "fsub x y = round64 (x - y)"

definition fmul :: "real \<Rightarrow> real \<Rightarrow> real" where
  "fmul x y = round64 (x * y)"

definition fdiv :: "real \<Rightarrow> real \<Rightarrow> real" where
  "fdiv x y = round64 (x / y)"

text \<open>
  Python's \<open>sum\<close>: from 0, one addition for each element, left to right. (CPython from
  version 3.12 on compensates the rounding errors of these additions. The two readings
  agree on a list with at most one element other than 0, and no property below depends on
  the sum of a longer list.)
\<close>

definition fsum :: "real list \<Rightarrow> real" where
  "fsum xs = foldl fadd 0 xs"

section \<open>Portfolio (src/portfolio\_module/portfolio.py)\<close>

text \<open>
  A position is the dictionary stored under a symbol in \<open>Portfolio.positions\<close>. The
  first four keys are written when the position is created; the last three are only
  written by \<open>_update_market_values\<close>, so they may be absent.
\<close>

record position =
  quantity :: real
  avg_price :: real
  total_cost :: real
  realized_pnl :: real
  current_price :: "real option"
  market_value :: "real option"
  unrealized_pnl :: "real option"

record fill_event =
  fe_timestamp :: string
  fe_symbol :: symbol
  fe_action :: action
  fe_quantity :: real
  fe_price :: real
  fe_commission :: real
  fe_order_id :: "nat option"

record trade_entry =
  te_fill :: fill_event
  realized_pnl_trade :: real
  cash_after_trade :: real

record history_record =
  total_value :: real
  hr_cash :: real
  positions_value :: real

text \<open>
  The market data provider is an external collaborator. What the portfolio and the broker
  keep of its answer, after their checks of the answer's format, is a usable price or
  nothing; an absent provider is \<open>None\<close>.
\<close>

type_synonym price_source = "(symbol \<Rightarrow> real option) option"

record portfolio =
  initial_cash :: real
  cash :: real
  positions :: "(symbol \<times> position) list"
  trade_log :: "trade_entry list"
  market_data_provider :: price_source
  portfolio_history :: "history_record list"

definition live_price :: "price_source \<Rightarrow> symbol \<Rightarrow> real \<Rightarrow> real" where
  "live_price mdp s dflt =
     (case mdp of None \<Rightarrow> dflt
      | Some f \<Rightarrow> (case f s of None \<Rightarrow> dflt | Some c \<Rightarrow> c))"

text \<open>The body of the loop of \<open>_update_market_values\<close> for one stored position.\<close>

definition revalue :: "price_source \<Rightarrow> symbol \<Rightarrow> position \<Rightarrow> position" where
  "revalue mdp s pos =
     (if quantity pos = 0
      then pos\<lparr>current_price := Some 0, market_value := Some 0, unrealized_pnl := Some 0\<rparr>
      else (let cp = live_price mdp s (avg_price pos)
            in pos\<lparr>current_price := Some cp,
                   market_value := Some (fmul (quantity pos) cp),
                   unrealized_pnl := Some (fmul (fsub cp (avg_price pos)) (quantity pos))\<rparr>))"

text \<open>
  \<open>_update_market_values(specific_symbol)\<close>: one symbol when a non-empty one is given,
  every stored symbol otherwise.
\<close>

definition update_market_values :: "symbol option \<Rightarrow> portfolio \<Rightarrow> portfolio" where
  "update_market_values specific_symbol p =
     (let chosen = (\<lambda>s. case specific_symbol of
                           None \<Rightarrow> True
                         | Some t \<Rightarrow> (if t = [] then True else s = t))
      in p\<lparr>positions :=
             map (\<lambda>(s, pos). if chosen s then (s, revalue (market_data_provider p) s pos)
                              else (s, pos))
                 (positions p)\<rparr>)"

definition get_total_value :: "portfolio \<Rightarrow> real \<times> portfolio" where
  "get_total_value p =
     (let p' = update_market_values None p;
          pv = fsum (map (\<lambda>(s, pos). case market_value pos of None \<Rightarrow> 0 | Some v \<Rightarrow> v)
                         (positions p'))
      in (fadd (cash p') pv, p'))"

definition record_portfolio_value :: "portfolio \<Rightarrow> portfolio" where
  "record_portfolio_value p =
     (let (tv, p') = get_total_value p
      in p'\<lparr>portfolio_history := portfolio_history p' @
               [\<lparr>total_value = tv, hr_cash = cash p', positions_value = fsub tv (cash p')\<rparr>]\<rparr>)"

text \<open>\<open>Portfolio.__init__\<close>: the initial state is recorded in the history.\<close>

definition new_portfolio :: "real \<Rightarrow> price_source \<Rightarrow> portfolio" where
  "new_portfolio c mdp =
     record_portfolio_value
       \<lparr>initial_cash = c, cash = c, positions = [], trade_log = [],
        market_data_provider = mdp, portfolio_history = []\<rparr>"

definition empty_position :: position where
  "empty_position =
     \<lparr>quantity = 0, avg_price = 0, total_cost = 0, realized_pnl = 0,
      current_price = None, market_value = None, unrealized_pnl = None\<rparr>"

text \<open>The BUY branch of \<open>update_fill\<close> on the stored position (lines 89 to 93).\<close>

definition buy_into :: "real \<Rightarrow> real \<Rightarrow> position \<Rightarrow> position" where
  "buy_into q pr pos =
     (let new_total_cost = fadd (fmul (quantity pos) (avg_price pos)) (fmul q pr);
          nq = fadd (quantity pos) q
      in pos\<lparr>quantity := nq,
             total_cost := fadd (total_cost pos) (fmul q pr),
             avg_price := (if nq > 0 then fdiv new_total_cost nq else 0)\<rparr>)"

text \<open>The SELL branch once the held quantity suffices (lines 102 to 109).\<close>

definition realized_of_sale :: "real \<Rightarrow> real \<Rightarrow> real \<Rightarrow> position \<Rightarrow> real" where
  "realized_of_sale q pr commission pos =
     fsub (fsub (fmul q pr) (fmul (avg_price pos) q)) commission"

definition sell_from :: "real \<Rightarrow> real \<Rightarrow> real \<Rightarrow> position \<Rightarrow> position" where
  "sell_from q pr commission pos =
     pos\<lparr>realized_pnl := fadd (realized_pnl pos) (realized_of_sale q pr commission pos),
         quantity := fsub (quantity pos) q,
         total_cost := fsub (total_cost pos) (fmul (avg_price pos) q)\<rparr>"

text \<open>Lines 117 to 125: the trade log entry, then revaluation and the history record.\<close>

definition log_and_record :: "fill_event \<Rightarrow> real \<Rightarrow> portfolio \<Rightarrow> portfolio" where
  "log_and_record fe pnl p =
     record_portfolio_value
       (update_market_values None
          (p\<lparr>trade_log := trade_log p @
                [\<lparr>te_fill = fe, realized_pnl_trade = pnl, cash_after_trade = cash p\<rparr>]\<rparr>))"

text \<open>
  \<open>Portfolio.update_fill\<close>. The cash is moved first (lines 66 and 68); the two
  rejections of a SELL (symbol not stored, or less held than sold) subtract the same
  amount again (lines 85 and 99) and return.
\<close>

definition update_fill :: "fill_event \<Rightarrow> portfolio \<Rightarrow> portfolio" where
  "update_fill fe p =
     (let s = fe_symbol fe; a = fe_action fe; q = fe_quantity fe;
          pr = fe_price fe; commission = fe_commission fe
      in if \<not> (s \<noteq> [] \<and> a \<noteq> NoAction \<and> q > 0 \<and> pr > 0) then p
         else if a \<noteq> BUY \<and> a \<noteq> SELL then p
         else
           (let p1 = (if a = BUY then p\<lparr>cash := fsub (cash p) (fadd (fmul q pr) commission)\<rparr>
                      else p\<lparr>cash := fadd (cash p) (fsub (fmul q pr) commission)\<rparr>)
            in case map_of (positions p1) s of
                 None \<Rightarrow>
                   (if a = BUY
                    then log_and_record fe 0
                           (p1\<lparr>positions :=
                                 AList.update s (buy_into q pr empty_position) (positions p1)\<rparr>)
                    else p1\<lparr>cash := fsub (cash p1) (fsub (fmul q pr) commission)\<rparr>)
               | Some pos \<Rightarrow>
                   (if a = BUY
                    then log_and_record fe 0
                           (p1\<lparr>positions := AList.update s (buy_into q pr pos) (positions p1)\<rparr>)
                    else if quantity pos < q
                    then p1\<lparr>cash := fsub (cash p1) (fsub (fmul q pr) commission)\<rparr>
                    else log_and_record fe (realized_of_sale q pr commission pos)
                           (p1\<lparr>positions :=
                                 AList.update s (sell_from q pr commission pos) (positions p1)\<rparr>))))"

text \<open>
  \<open>Portfolio.get_position\<close>: the stored record, revalued, when its quantity is positive;
  \<open>None\<close> otherwise. The revaluation is kept in the returned portfolio.
\<close>

definition get_position :: "symbol \<Rightarrow> portfolio \<Rightarrow> position option \<times> portfolio" where
  "get_position s p =
     (case map_of (positions p) s of
        None \<Rightarrow> (None, p)
      | Some pos \<Rightarrow>
          (if quantity pos > 0
           then (let p' = update_market_values (Some s) p in (map_of (positions p') s, p'))
           else (None, p)))"

text \<open>The quantity held of a symbol: that of its stored record, 0 without one.\<close>

definition held_quantity :: "portfolio \<Rightarrow> symbol \<Rightarrow> real" where
  "held_quantity p s = (case map_of (positions p) s of None \<Rightarrow> 0 | Some pos \<Rightarrow> quantity pos)"

section \<open>Orders and the simulated broker (src/execution\_module/brokers/simulated\_broker.py)\<close>

text \<open>
  A signal and the order made from it are one Python dictionary, copied and extended along
  the pipeline. Its keys are optional: \<open>None\<close> is an absent key. The quantity is a
  number or the text \<open>'all'\<close>, on which \<open>float()\<close> raises \<open>ValueError\<close>. The order
  type is the upper-cased string. Order identifiers are \<open>uuid4\<close> strings in the source;
  here they are drawn from a counter kept in the broker.
\<close>

datatype py_error = ValueError | TypeError | OverflowError

datatype quantity_value = Qty real | QtyAll

datatype order_type = MARKET | LIMIT | STOP | STOP_LIMIT | OtherType

record order =
  o_symbol :: symbol
  o_action :: action
  o_quantity :: "quantity_value option"
  o_order_type :: "order_type option"
  o_price :: "real option"
  o_stop_price :: "real option"
  o_stop_loss_price :: "real option"
  o_order_id :: "nat option"
  o_reason :: "string option"
  o_calculated_risk :: "real option"

datatype order_status = pending_execution | pending | filled | rejected | failed | cancelled

fun status_name :: "order_status \<Rightarrow> string" where
  "status_name pending_execution = ''pending_execution''"
| "status_name pending = ''pending''"
| "status_name filled = ''filled''"
| "status_name rejected = ''rejected''"
| "status_name failed = ''failed''"
| "status_name cancelled = ''cancelled''"

text \<open>
  Messages are fixed texts, or a format string with its arguments: the text of a filled
  order prints floats, and the pending and missing-field texts print the order type.
\<close>

datatype message =
    Text string
  | Order_filled action real symbol real
  | Order_pending_execution order_type
  | Order_accepted_pending order_type
  | Missing_price_for order_type
  | Missing_stop_price_for order_type

record order_info =
  oi_order :: order
  oi_status :: order_status
  oi_message :: "message option"
  oi_filled_quantity :: "real option"
  oi_avg_fill_price :: "real option"

record exec_result =
  r_status :: order_status
  r_order_id :: "nat option"
  r_message :: message
  r_filled_quantity :: "real option"
  r_filled_price :: "real option"

record broker_position =
  bp_quantity :: real
  bp_avg_price :: real
  bp_market_value :: real
  bp_unrealized_pnl :: real

datatype slippage_model = slippage_none | slippage_fixed | slippage_percentage | slippage_other

record bar =
  bar_open :: real
  bar_high :: real
  bar_low :: real
  bar_close :: real
  bar_volume :: real

type_synonym market_data = "symbol \<rightharpoonup> bar"

record broker =
  is_connected :: bool
  cash_balance :: real
  broker_positions :: "symbol \<rightharpoonup> broker_position"
  orders :: "nat \<rightharpoonup> order_info"
  trade_history :: "order_info list"
  broker_data_provider :: price_source
  pending_orders :: "(nat \<times> order) list"
  commission_per_trade :: real
  slippage :: slippage_model
  fixed_slippage :: real
  percentage_slippage :: real
  portfolio_ref :: "portfolio option"
  next_order_id :: nat

text \<open>\<open>float(order.get('quantity', 0))\<close>.\<close>

definition float_quantity :: "quantity_value option \<Rightarrow> py_error + real" where
  "float_quantity v =
     (case v of None \<Rightarrow> Inr 0 | Some (Qty r) \<Rightarrow> Inr r | Some QtyAll \<Rightarrow> Inl ValueError)"

definition apply_slippage :: "broker \<Rightarrow> real \<Rightarrow> action \<Rightarrow> real" where
  "apply_slippage b price a =
     (if slippage b = slippage_none then price
      else (let slippage_amount =
                  (if slippage b = slippage_fixed then fixed_slippage b
                   else if slippage b = slippage_percentage then price * percentage_slippage b
                   else 0)
            in if a = BUY then price + slippage_amount
               else if a = SELL then price - slippage_amount
               else price))"

definition result_of :: "order_status \<Rightarrow> nat option \<Rightarrow> message \<Rightarrow> exec_result" where
  "result_of st i m =
     \<lparr>r_status = st, r_order_id = i, r_message = m,
      r_filled_quantity = None, r_filled_price = None\<rparr>"

text \<open>
  The BUY and SELL branches of \<open>_execute_order\<close> (lines 224 to 268) on the cash and the
  positions of the broker: the new broker, the status and the message.
\<close>

definition settle :: "symbol \<Rightarrow> action \<Rightarrow> real \<Rightarrow> real \<Rightarrow> broker
    \<Rightarrow> broker \<times> order_status \<times> message" where
  "settle s a q filled_price b =
     (let order_value = q * filled_price;
          total_cost = order_value + commission_per_trade b
      in if a = BUY then
           (if cash_balance b \<ge> total_cost then
              (let pos = (case broker_positions b s of
                            None \<Rightarrow> \<lparr>bp_quantity = 0, bp_avg_price = 0,
                                     bp_market_value = 0, bp_unrealized_pnl = 0\<rparr>
                          | Some x \<Rightarrow> x);
                   new_total_value = bp_quantity pos * bp_avg_price pos + q * filled_price;
                   new_total_qty = bp_quantity pos + q;
                   pos' = pos\<lparr>bp_avg_price :=
                                (if new_total_qty > 0 then new_total_value / new_total_qty else 0),
                              bp_quantity := new_total_qty\<rparr>
               in (b\<lparr>cash_balance := cash_balance b - total_cost,
                      broker_positions := (broker_positions b)(s \<mapsto> pos')\<rparr>,
                   filled, Order_filled BUY q s filled_price))
            else (b, rejected, Text ''Insufficient cash''))
         else if a = SELL then
           (case broker_positions b s of
              None \<Rightarrow> (b, rejected, Text ''Insufficient position'')
            | Some pos \<Rightarrow>
                (if bp_quantity pos \<ge> q then
                   (let nq = bp_quantity pos - q;
                        pos' = (if nq = 0 then pos\<lparr>bp_quantity := nq, bp_avg_price := 0\<rparr>
                                else pos\<lparr>bp_quantity := nq\<rparr>)
                    in (b\<lparr>cash_balance :=
                             cash_balance b + (order_value - commission_per_trade b),
                           broker_positions := (broker_positions b)(s \<mapsto> pos')\<rparr>,
                        filled, Order_filled SELL q s filled_price))
                 else (b, rejected, Text ''Insufficient position'')))
         else (b, failed, Text ''Invalid action''))"

text \<open>
  \<open>_execute_order\<close> from line 177 on, once the fields of the order have been checked:
  the execution price is the provider's quote when the broker has a provider that
  answers with a price, and the price of the order otherwise; then slippage, the stored
  order, the settlement, and for a filled order the trade history and the fill event
  handed to the referenced Portfolio.
\<close>

definition execute_checked :: "nat \<Rightarrow> order \<Rightarrow> real \<Rightarrow> real \<Rightarrow> broker \<Rightarrow> exec_result \<times> broker"
  where
  "execute_checked order_id ord q requested_price b =
     (let s = o_symbol ord; a = o_action ord;
          execution_price = live_price (broker_data_provider b) s requested_price;
          filled_price = apply_slippage b execution_price a;
          stored = (case orders b order_id of
                      None \<Rightarrow>
                        \<lparr>oi_order = ord\<lparr>o_order_id := Some order_id\<rparr>,
                         oi_status = pending_execution, oi_message = None,
                         oi_filled_quantity = None, oi_avg_fill_price = None\<rparr>
                    | Some x \<Rightarrow> x);
          b1 = b\<lparr>orders := (orders b)(order_id \<mapsto> stored)\<rparr>
      in case settle s a q filled_price b1 of
           (b2, st, msg) \<Rightarrow>
             (let info = stored
                           \<lparr>oi_status := st,
                            oi_filled_quantity := Some (if st = filled then q else 0),
                            oi_avg_fill_price :=
                              (if st = filled then Some filled_price else None),
                            oi_message := Some msg\<rparr>;
                  b3 = b2\<lparr>orders := (orders b2)(order_id \<mapsto> info)\<rparr>;
                  b4 = (if st = filled
                        then b3\<lparr>trade_history := trade_history b3 @ [info],
                                portfolio_ref :=
                                  (case portfolio_ref b3 of
                                     None \<Rightarrow> None
                                   | Some pf \<Rightarrow>
                                       Some (update_fill
                                         \<lparr>fe_timestamp = [], fe_symbol = s, fe_action = a,
                                          fe_quantity = q, fe_price = filled_price,
                                          fe_commission = commission_per_trade b3,
                                          fe_order_id = Some order_id\<rparr> pf))\<rparr>
                        else b3)
              in (\<lparr>r_status = st, r_order_id = Some order_id, r_message = msg,
                   r_filled_quantity = Some (if st = filled then q else 0),
                   r_filled_price = (if st = filled then Some filled_price else None)\<rparr>,
                  b4)))"

text \<open>
  \<open>_execute_order\<close>. \<open>float()\<close> of the quantity may raise, before anything is written.
  An order without an identifier gets a fresh one.
\<close>

definition execute_order :: "order \<Rightarrow> broker \<Rightarrow> py_error + (exec_result \<times> broker)" where
  "execute_order ord b =
     (if \<not> is_connected b then Inr (result_of failed None (Text ''Broker not connected''), b)
      else
       (let order_id = (case o_order_id ord of Some i \<Rightarrow> i | None \<Rightarrow> next_order_id b);
            b0 = (case o_order_id ord of Some i \<Rightarrow> b
                  | None \<Rightarrow> b\<lparr>next_order_id := Suc (next_order_id b)\<rparr>)
        in case float_quantity (o_quantity ord) of
             Inl e \<Rightarrow> Inl e
           | Inr q \<Rightarrow>
              (case o_price ord of
                 None \<Rightarrow> Inr (result_of failed (Some order_id) (Text ''Invalid order fields''), b0)
               | Some requested_price \<Rightarrow>
                  (if \<not> (o_symbol ord \<noteq> [] \<and> o_action ord \<noteq> NoAction \<and> q > 0)
                   then Inr (result_of failed (Some order_id) (Text ''Invalid order fields''), b0)
                   else Inr (execute_checked order_id ord q requested_price b0)))))"

text \<open>
  \<open>place_order\<close>: a MARKET order (also one without an order type) is executed at once;
  every other order type is stored as pending and queued.
\<close>

definition place_order :: "order \<Rightarrow> broker \<Rightarrow> py_error + (exec_result \<times> broker)" where
  "place_order ord b =
     (if \<not> is_connected b then Inr (result_of failed None (Text ''Broker not connected''), b)
      else
       (let order_id = next_order_id b;
            b0 = b\<lparr>next_order_id := Suc (next_order_id b)\<rparr>;
            s = o_symbol ord; a = o_action ord;
            ot = (case o_order_type ord of None \<Rightarrow> MARKET | Some t \<Rightarrow> t)
        in case float_quantity (o_quantity ord) of
             Inl e \<Rightarrow> Inl e
           | Inr q \<Rightarrow>
              (if \<not> (s \<noteq> [] \<and> (a = BUY \<or> a = SELL) \<and> q > 0)
               then Inr (result_of failed (Some order_id) (Text ''Invalid order fields''), b0)
               else if (ot = LIMIT \<or> ot = STOP_LIMIT) \<and> o_price ord = None
               then Inr (result_of failed (Some order_id) (Missing_price_for ot), b0)
               else if (ot = STOP \<or> ot = STOP_LIMIT) \<and> o_stop_price ord = None
               then Inr (result_of failed (Some order_id) (Missing_stop_price_for ot), b0)
               else
                (let order_with_id = ord\<lparr>o_order_id := Some order_id\<rparr>
                 in if ot = MARKET then execute_order order_with_id b0
                    else Inr (result_of pending (Some order_id) (Order_accepted_pending ot),
                              b0\<lparr>orders := (orders b0)(order_id \<mapsto>
                                     \<lparr>oi_order = order_with_id, oi_status = pending,
                                      oi_message = Some (Order_pending_execution ot),
                                      oi_filled_quantity = None, oi_avg_fill_price = None\<rparr>),
                                  pending_orders :=
                                    AList.update order_id order_with_id (pending_orders b0)\<rparr>)))))"

text \<open>
  \<open>cancel_order\<close>. The texts of the two results are those of the source; the refusal
  prints the status of the order.
\<close>

definition cancel_order :: "nat \<Rightarrow> broker \<Rightarrow> exec_result \<times> broker" where
  "cancel_order order_id b =
     (case orders b order_id of
        None \<Rightarrow> (result_of failed None (Text ''Order ID not found''), b)
      | Some order_info \<Rightarrow>
          (if oi_status order_info \<notin> {filled, rejected, cancelled, failed}
           then (result_of cancelled None (Text ''Order cancelled successfully.''),
                 b\<lparr>pending_orders := AList.delete order_id (pending_orders b),
                   orders := (orders b)(order_id \<mapsto>
                     order_info\<lparr>oi_status := cancelled,
                                oi_message := Some (Text ''Order cancelled by user.'')\<rparr>)\<rparr>)
           else (result_of failed None
                   (Text (''Order cannot be cancelled (status: '' @
                          status_name (oi_status order_info) @ '').'')), b)))"

text \<open>
  The trigger test of \<open>process_pending_orders\<close> (lines 94 to 120) for one pending order
  against the close of the bar. Comparing a float with an absent price raises
  \<open>TypeError\<close>.
\<close>

definition price_le :: "real \<Rightarrow> real option \<Rightarrow> py_error + bool" where
  "price_le c x = (case x of None \<Rightarrow> Inl TypeError | Some v \<Rightarrow> Inr (c \<le> v))"

definition price_ge :: "real \<Rightarrow> real option \<Rightarrow> py_error + bool" where
  "price_ge c x = (case x of None \<Rightarrow> Inl TypeError | Some v \<Rightarrow> Inr (c \<ge> v))"

definition limit_test :: "order \<Rightarrow> real \<Rightarrow> py_error + bool" where
  "limit_test ord close_price =
     (if o_action ord = BUY then price_le close_price (o_price ord)
      else if o_action ord = SELL then price_ge close_price (o_price ord)
      else Inr False)"

definition stop_test :: "order \<Rightarrow> real \<Rightarrow> py_error + bool" where
  "stop_test ord close_price =
     (if o_action ord = BUY then price_ge close_price (o_stop_price ord)
      else if o_action ord = SELL then price_le close_price (o_stop_price ord)
      else Inr False)"

definition should_execute :: "order \<Rightarrow> real \<Rightarrow> py_error + bool" where
  "should_execute ord close_price =
     (case o_order_type ord of
        Some LIMIT \<Rightarrow> limit_test ord close_price
      | Some STOP \<Rightarrow> stop_test ord close_price
      | Some STOP_LIMIT \<Rightarrow>
          (case stop_test ord close_price of
             Inl e \<Rightarrow> Inl e
           | Inr stop_triggered \<Rightarrow>
               (if stop_triggered then limit_test ord close_price else Inr False))
      | _ \<Rightarrow> Inr False)"

text \<open>
  The loop of \<open>process_pending_orders\<close> over the snapshot of the queue taken before it.
  An exception ends the call; the broker is returned as the exception left it.
\<close>

fun pending_loop :: "market_data \<Rightarrow> (nat \<times> order) list \<Rightarrow> broker \<Rightarrow> py_error option \<times> broker"
  where
  "pending_loop md [] b = (None, b)"
| "pending_loop md ((order_id, ord) # rest) b =
     (case md (o_symbol ord) of
        None \<Rightarrow> pending_loop md rest b
      | Some market_bar \<Rightarrow>
          (case should_execute ord (bar_close market_bar) of
             Inl e \<Rightarrow> (Some e, b)
           | Inr False \<Rightarrow> pending_loop md rest b
           | Inr True \<Rightarrow>
               (let b1 = b\<lparr>pending_orders := AList.delete order_id (pending_orders b)\<rparr>;
                    order_copy = ord\<lparr>o_price := Some (bar_close market_bar),
                                     o_order_type := Some MARKET\<rparr>
                in case execute_order order_copy b1 of
                     Inl e \<Rightarrow> (Some e, b1)
                   | Inr (r, b2) \<Rightarrow> pending_loop md rest b2)))"

definition process_pending_orders :: "market_data \<Rightarrow> broker \<Rightarrow> py_error option \<times> broker" where
  "process_pending_orders current_market_data b =
     (if \<not> is_connected b \<or> pending_orders b = [] then (None, b)
      else pending_loop current_market_data (pending_orders b) b)"

text \<open>\<open>SimulatedBroker.__init__\<close> with the defaults of the source, then \<open>connect\<close>.\<close>

definition new_broker :: "real \<Rightarrow> broker" where
  "new_broker c =
     \<lparr>is_connected = False, cash_balance = c, broker_positions = Map.empty,
      orders = Map.empty, trade_history = [], broker_data_provider = None,
      pending_orders = [], commission_per_trade = 0, slippage = slippage_none,
      fixed_slippage = 1 / 100, percentage_slippage = 5 / 10000,
      portfolio_ref = None, next_order_id = 0\<rparr>"

definition connect :: "broker \<Rightarrow> broker" where
  "connect b = b\<lparr>is_connected := True\<rparr>"

section \<open>Risk manager (src/risk\_module/simple\_risk\_manager.py)\<close>

text \<open>
  The portfolio snapshot pushed to the risk manager is a dictionary from key names to
  numbers, read with \<open>.get('total_value')\<close> and \<open>.get('cash', 0)\<close>. The position state
  is the position dictionary of the Portfolio, or \<open>None\<close>. Texts that the source
  formats with numbers are kept as their templates.

  The dampeners of \<open>calculate_max_position_size\<close> that read recent prices and volumes
  from a data provider (step 4 of the source) are kept as the function from symbol, price
  and quantity to quantity that the provider's history determines; a risk manager
  configured without a provider factory has none.
\<close>

type_synonym portfolio_state = "(string \<times> real) list"

datatype sizing_method = percent_risk | fixed_amount_per_trade | fixed_quantity | other_method

datatype size = Finite real | Infinite

record risk_manager =
  initial_capital :: real
  current_capital :: real
  high_water_mark :: real
  max_risk_per_trade_pct :: real
  max_total_risk_pct :: real
  max_drawdown_limit_pct :: real
  position_sizing_method :: sizing_method
  current_total_risk_amount :: real
  positions_risk :: "symbol \<rightharpoonup> real"
  max_order_value_pct :: real
  max_position_pct_asset :: real
  min_cash_balance_pct :: real
  data_provider :: "(symbol \<Rightarrow> real \<Rightarrow> real \<Rightarrow> real) option"

text \<open>
  \<open>SimpleRiskManager.__init__\<close> with the defaults of the source for every key but the
  capital.
\<close>

definition new_risk_manager :: "real \<Rightarrow> risk_manager" where
  "new_risk_manager c =
     \<lparr>initial_capital = c, current_capital = c, high_water_mark = c,
      max_risk_per_trade_pct = 2 / 100, max_total_risk_pct = 5 / 100,
      max_drawdown_limit_pct = 1 / 10, position_sizing_method = percent_risk,
      current_total_risk_amount = 0, positions_risk = Map.empty,
      max_order_value_pct = 1 / 10, max_position_pct_asset = 2 / 10,
      min_cash_balance_pct = 5 / 100, data_provider = None\<rparr>"

definition update_portfolio_state :: "portfolio_state \<Rightarrow> risk_manager \<Rightarrow> risk_manager" where
  "update_portfolio_state ps rm =
     (case map_of ps ''total_value'' of
        None \<Rightarrow> rm
      | Some new_capital \<Rightarrow>
          rm\<lparr>current_capital := new_capital,
             high_water_mark :=
               (if new_capital > high_water_mark rm then new_capital else high_water_mark rm)\<rparr>)"

definition calculate_current_drawdown :: "risk_manager \<Rightarrow> real" where
  "calculate_current_drawdown rm =
     (if high_water_mark rm = 0 then 0
      else (let drawdown = (high_water_mark rm - current_capital rm) / high_water_mark rm
            in if drawdown > 0 then drawdown else 0))"

definition get_risk_amount_for_trade :: "real \<Rightarrow> real \<Rightarrow> real \<Rightarrow> real" where
  "get_risk_amount_for_trade entry_price stop_loss q =
     (if q \<le> 0 \<or> entry_price \<le> 0 \<or> stop_loss \<le> 0 then 0
      else \<bar>entry_price - stop_loss\<bar> * q)"

definition risk_of :: "risk_manager \<Rightarrow> symbol \<Rightarrow> real" where
  "risk_of rm s = (case positions_risk rm s of None \<Rightarrow> 0 | Some r \<Rightarrow> r)"

definition add_position_risk :: "symbol \<Rightarrow> real \<Rightarrow> risk_manager \<Rightarrow> risk_manager" where
  "add_position_risk s risk_amount rm =
     (if risk_amount \<le> 0 then rm
      else rm\<lparr>current_total_risk_amount :=
                 current_total_risk_amount rm - risk_of rm s + risk_amount,
               positions_risk := (positions_risk rm)(s \<mapsto> risk_amount)\<rparr>)"

definition remove_position_risk :: "symbol \<Rightarrow> risk_manager \<Rightarrow> risk_manager" where
  "remove_position_risk s rm =
     rm\<lparr>current_total_risk_amount := current_total_risk_amount rm - risk_of rm s,
        positions_risk := (positions_risk rm)(s := None)\<rparr>"

text \<open>\<open>float(int(x))\<close>: truncation towards zero.\<close>

definition whole :: "real \<Rightarrow> real" where
  "whole x = (if x \<ge> 0 then of_int \<lfloor>x\<rfloor> else of_int \<lceil>x\<rceil>)"

definition held :: "position option \<Rightarrow> real" where
  "held position_state = (case position_state of None \<Rightarrow> 0 | Some pos \<Rightarrow> quantity pos)"

text \<open>
  The checks of \<open>validate_signal\<close> from line 155 on, for a signal with price \<open>price\<close> and
  a numeric quantity \<open>q\<close> (\<open>None\<close> when the signal has no quantity).
\<close>

definition validate_sized ::
    "order \<Rightarrow> real \<Rightarrow> real option \<Rightarrow> portfolio_state \<Rightarrow> position option \<Rightarrow> risk_manager
      \<Rightarrow> bool \<times> string" where
  "validate_sized signal price quantity_opt ps position_state rm =
     (let a = o_action signal; s = o_symbol signal;
          entry = (a = BUY \<or> a = SHORT) \<and> quantity_opt \<noteq> None;
          q = (case quantity_opt of None \<Rightarrow> 0 | Some x \<Rightarrow> x)
      in if entry \<and> (case o_stop_loss_price signal of None \<Rightarrow> True | Some sl \<Rightarrow> sl \<le> 0)
         then (False, ''Signal for {action} {symbol} missing valid 'stop_loss_price'.'')
         else if entry \<and>
                 (case o_stop_loss_price signal of
                    None \<Rightarrow> False
                  | Some sl \<Rightarrow> (a = BUY \<and> price \<le> sl) \<or> (a = SHORT \<and> price \<ge> sl))
         then (False, ''Entry price {price} is not favorable compared to stop loss.'')
         else
          (let proposed_risk_amount =
                 (if entry
                  then (case o_stop_loss_price signal of
                          None \<Rightarrow> 0
                        | Some sl \<Rightarrow> get_risk_amount_for_trade price sl q)
                  else 0);
               max_risk_allowed_per_trade = current_capital rm * max_risk_per_trade_pct rm;
               current_risk_for_symbol = risk_of rm s;
               additional_risk =
                 (if a = SELL \<or> a = COVER then - current_risk_for_symbol
                  else proposed_risk_amount -
                         (if a = BUY \<or> a = SHORT then current_risk_for_symbol else 0));
               potential_total_risk = current_total_risk_amount rm + additional_risk;
               max_total_portfolio_risk_abs = current_capital rm * max_total_risk_pct rm;
               total_portfolio_value =
                 (case map_of ps ''total_value'' of None \<Rightarrow> 0 | Some v \<Rightarrow> v);
               available_cash = (case map_of ps ''cash'' of None \<Rightarrow> 0 | Some v \<Rightarrow> v);
               order_value = q * price
           in if proposed_risk_amount > 0 \<and> proposed_risk_amount > max_risk_allowed_per_trade
              then (False, ''Proposed risk exceeds max risk per trade limit.'')
              else if potential_total_risk > max_total_portfolio_risk_abs \<and> additional_risk > 0
              then (False, ''Trade would exceed max total portfolio risk.'')
              else if total_portfolio_value \<le> 0
              then (False, ''Portfolio total value is zero or invalid.'')
              else if a = BUY \<and> order_value > 0 \<and>
                      order_value > total_portfolio_value * max_order_value_pct rm
              then (False, ''Order value exceeds max order value limit.'')
              else if a = BUY \<and> order_value > 0 \<and>
                      available_cash - order_value <
                        total_portfolio_value * min_cash_balance_pct rm
              then (False, ''Insufficient cash after trade for min balance.'')
              else if a = BUY \<and> quantity_opt \<noteq> None \<and>
                      (if held position_state > 0 then held position_state * price else 0)
                        + order_value > total_portfolio_value * max_position_pct_asset rm
              then (False, ''Asset value would exceed max position limit.'')
              else if a = SELL \<and> quantity_opt \<noteq> None \<and>
                      (position_state = None \<or> q > held position_state)
              then (False, ''Sell quantity exceeds holdings.'')
              else (True, ''Signal preliminarily valid (final size TBD by adjust_order_size).'')))"

text \<open>
  \<open>validate_signal\<close>. A quantity \<open>'all'\<close> on anything but a SELL makes \<open>float()\<close> raise
  \<open>ValueError\<close>, which the source catches.
\<close>

definition validate_signal ::
    "order \<Rightarrow> portfolio_state \<Rightarrow> position option \<Rightarrow> risk_manager \<Rightarrow> (bool \<times> string) \<times> risk_manager"
  where
  "validate_signal signal ps position_state rm =
     (if ps = [] then ((False, ''Portfolio state missing.''), rm)
      else
       (case o_price signal of
          None \<Rightarrow> ((False, ''Signal missing action, symbol, or price.''), rm)
        | Some price \<Rightarrow>
           (if o_action signal = NoAction \<or> o_symbol signal = [] \<or> price = 0
            then ((False, ''Signal missing action, symbol, or price.''), rm)
            else if price \<le> 0 then ((False, ''Invalid entry price: {price}''), rm)
            else
             (let rm1 = update_portfolio_state ps rm in
              if calculate_current_drawdown rm1 \<ge> max_drawdown_limit_pct rm1
              then ((False, ''Trading halted/restricted: Max drawdown limit reached.''), rm1)
              else if o_action signal = SELL \<and> o_quantity signal = Some QtyAll
              then (if position_state = None \<or> held position_state \<le> 0
                    then ((False, ''Cannot sell 'all' for {symbol}: No existing position.''), rm1)
                    else ((True, ''Sell 'all' signal preliminarily valid.''), rm1))
              else
               (case o_quantity signal of
                  Some QtyAll \<Rightarrow> ((False, ''Invalid quantity format: {quantity}''), rm1)
                | Some (Qty q) \<Rightarrow>
                   (if q \<le> 0 then ((False, ''Quantity must be positive.''), rm1)
                    else (validate_sized signal price (Some q) ps position_state rm1, rm1))
                | None \<Rightarrow> (validate_sized signal price None ps position_state rm1, rm1))))))"

text \<open>
  Lines 247 to 256 of \<open>calculate_max_position_size\<close>: the risk amount of one trade, capped
  by what is left of the total risk budget.
\<close>

definition risk_amount_for_this_trade :: "risk_manager \<Rightarrow> real" where
  "risk_amount_for_this_trade rm =
     (let capital_for_risk_calc = current_capital rm;
          remaining_total_risk_budget =
            capital_for_risk_calc * max_total_risk_pct rm - current_total_risk_amount rm
      in min (capital_for_risk_calc * max_risk_per_trade_pct rm)
             (max 0 remaining_total_risk_budget))"

text \<open>
  Lines 289 to 359: the quantity clipped by the cash (BUY only), the asset limit and the
  order value limit, dampened by the provider if there is one, in whole units.
\<close>

definition clip_quantity :: "symbol \<Rightarrow> real \<Rightarrow> portfolio_state \<Rightarrow> action \<Rightarrow> real
    \<Rightarrow> risk_manager \<Rightarrow> real" where
  "clip_quantity s price ps a q rm =
     (let capital_for_risk_calc = current_capital rm;
          max_qty_by_asset_limit = capital_for_risk_calc * max_position_pct_asset rm / price;
          available_cash = (case map_of ps ''cash'' of None \<Rightarrow> 0 | Some v \<Rightarrow> v);
          max_investment_from_cash =
            available_cash - capital_for_risk_calc * min_cash_balance_pct rm
      in if a = BUY \<and> max_investment_from_cash \<le> 0 then 0
         else
          (let q1 = (if a = BUY then min q (max_investment_from_cash / price) else q);
               q2 = min q1 max_qty_by_asset_limit;
               q3 = min q2 (capital_for_risk_calc * max_order_value_pct rm / price);
               q4 = (case data_provider rm of None \<Rightarrow> q3 | Some dampen \<Rightarrow> dampen s price q3)
           in whole q4))"

definition calculate_max_position_size ::
    "symbol \<Rightarrow> real \<Rightarrow> portfolio_state \<Rightarrow> real option \<Rightarrow> action \<Rightarrow> risk_manager
      \<Rightarrow> size \<times> risk_manager" where
  "calculate_max_position_size s price ps stop_loss a rm =
     (if ps = [] \<or> price \<le> 0 then (Finite 0, rm)
      else
       (let rm1 = update_portfolio_state ps rm in
        if calculate_current_drawdown rm1 \<ge> max_drawdown_limit_pct rm1 then (Finite 0, rm1)
        else if risk_amount_for_this_trade rm1 \<le> 0 then (Finite 0, rm1)
        else if position_sizing_method rm1 = percent_risk then
          (case stop_loss of
             None \<Rightarrow> (Finite 0, rm1)
           | Some sl \<Rightarrow>
               (if sl \<le> 0 then (Finite 0, rm1)
                else if (a = BUY \<and> price \<le> sl) \<or> (a = SHORT \<and> price \<ge> sl)
                then (Finite 0, rm1)
                else if \<bar>price - sl\<bar> = 0 then (Finite 0, rm1)
                else (Finite (clip_quantity s price ps a
                                (risk_amount_for_this_trade rm1 / \<bar>price - sl\<bar>) rm1), rm1)))
        else if position_sizing_method rm1 = fixed_amount_per_trade then
          (Finite (clip_quantity s price ps a (risk_amount_for_this_trade rm1 / price) rm1), rm1)
        else if position_sizing_method rm1 = fixed_quantity then (Infinite, rm1)
        else (Finite 0, rm1)))"

text \<open>
  The quantity of a BUY or SHORT order from the allowed size (lines 429 to 458), before it
  is cut to whole units: \<open>None\<close> is an infinite quantity, on which \<open>int()\<close> raises.
\<close>

definition quantity_to_trade :: "quantity_value option \<Rightarrow> size \<Rightarrow> real \<Rightarrow> real option" where
  "quantity_to_trade requested_quantity max_total_allowable_qty current_holding_qty =
     (case requested_quantity of
        Some QtyAll \<Rightarrow> Some 0
      | Some (Qty r) \<Rightarrow>
          (case max_total_allowable_qty of
             Infinite \<Rightarrow> Some (max 0 r)
           | Finite m \<Rightarrow> Some (max 0 (min r (m - current_holding_qty))))
      | None \<Rightarrow>
          (case max_total_allowable_qty of
             Infinite \<Rightarrow> None
           | Finite m \<Rightarrow> Some (max 0 (m - current_holding_qty))))"

text \<open>Lines 477 to 489: whole units, the risk of the trade, and the risk ledger.\<close>

definition finish_entry :: "order \<Rightarrow> real \<Rightarrow> real \<Rightarrow> risk_manager \<Rightarrow> order \<times> risk_manager" where
  "finish_entry adjusted_order price final rm =
     (let final_quantity = whole final;
          calculated_risk_for_trade =
            (case o_stop_loss_price adjusted_order of
               None \<Rightarrow> 0
             | Some sl \<Rightarrow>
                 (if final_quantity > 0 \<and> sl \<noteq> 0
                  then get_risk_amount_for_trade price sl final_quantity else 0))
      in if final_quantity > 0
         then (adjusted_order\<lparr>o_quantity := Some (Qty final_quantity),
                              o_calculated_risk := Some calculated_risk_for_trade\<rparr>,
               add_position_risk (o_symbol adjusted_order) calculated_risk_for_trade rm)
         else (adjusted_order\<lparr>o_quantity := Some (Qty final_quantity),
                              o_reason := (case o_reason adjusted_order of
                                             None \<Rightarrow> Some ''Calculated quantity is zero.''
                                           | Some r \<Rightarrow> Some r)\<rparr>,
               remove_position_risk (o_symbol adjusted_order) rm))"

text \<open>Lines 492 to 519: a SELL or COVER order is cut to the held quantity.\<close>

definition adjust_exit :: "order \<Rightarrow> real \<Rightarrow> risk_manager \<Rightarrow> order \<times> risk_manager" where
  "adjust_exit adjusted_order current_holding_qty rm =
     (let qty_to_trade =
            (case o_quantity adjusted_order of
               Some QtyAll \<Rightarrow> current_holding_qty
             | Some (Qty r) \<Rightarrow> min r current_holding_qty
             | None \<Rightarrow> 0);
          final_quantity = whole (max 0 qty_to_trade);
          sized = adjusted_order\<lparr>o_quantity := Some (Qty final_quantity)\<rparr>
      in if final_quantity \<ge> current_holding_qty \<and> current_holding_qty > 0
         then (sized\<lparr>o_reason := Some ''Position closed.''\<rparr>,
               remove_position_risk (o_symbol adjusted_order) rm)
         else if final_quantity > 0
         then (sized\<lparr>o_reason := Some ''Partial exit. Original risk for {symbol} removed.''\<rparr>,
               remove_position_risk (o_symbol adjusted_order) rm)
         else (sized, rm))"

text \<open>Lines 522 and 523: an order left at quantity 0 without a reason gets one.\<close>

definition zero_reason :: "order \<Rightarrow> order" where
  "zero_reason adjusted_order =
     (if (o_quantity adjusted_order = None \<or> o_quantity adjusted_order = Some (Qty 0)) \<and>
         o_reason adjusted_order = None
      then adjusted_order\<lparr>o_reason := Some ''Quantity is zero after adjustment.''\<rparr>
      else adjusted_order)"

definition adjust_order_size ::
    "order \<Rightarrow> portfolio_state \<Rightarrow> position option \<Rightarrow> risk_manager
      \<Rightarrow> py_error + (order \<times> risk_manager)" where
  "adjust_order_size original_order ps position_state rm =
     (let a = o_action original_order; s = o_symbol original_order;
          rm1 = update_portfolio_state ps rm;
          invalid = Inr (original_order\<lparr>o_quantity := Some (Qty 0),
                          o_reason := Some ''Invalid order fields (action, symbol, price).''\<rparr>, rm1)
      in case o_price original_order of
           None \<Rightarrow> invalid
         | Some price \<Rightarrow>
            (if a = NoAction \<or> s = [] \<or> price = 0 \<or> price \<le> 0 then invalid
             else if a = BUY \<or> a = SHORT then
               (if calculate_current_drawdown rm1 \<ge> max_drawdown_limit_pct rm1
                then Inr (original_order\<lparr>o_quantity := Some (Qty 0),
                            o_reason := Some ''Max drawdown limit reached.''\<rparr>,
                          remove_position_risk s rm1)
                else if o_quantity original_order = None \<or>
                        position_sizing_method rm1 \<noteq> fixed_quantity
                then
                  (if position_sizing_method rm1 = percent_risk \<and>
                      (case o_stop_loss_price original_order of
                         None \<Rightarrow> True | Some sl \<Rightarrow> sl \<le> 0)
                   then Inr (original_order\<lparr>o_quantity := Some (Qty 0),
                               o_reason := Some
                                 '''percent_risk' sizing requires valid 'stop_loss_price' in signal.''\<rparr>,
                             remove_position_risk s rm1)
                   else
                    (case calculate_max_position_size s price ps
                            (o_stop_loss_price original_order) a rm1 of
                       (max_total_allowable_qty, rm2) \<Rightarrow>
                         (case quantity_to_trade (o_quantity original_order)
                                 max_total_allowable_qty
                                 (if a = BUY then held position_state
                                  else \<bar>held position_state\<bar>) of
                            None \<Rightarrow> Inl OverflowError
                          | Some final \<Rightarrow>
                              Inr (apfst zero_reason
                                     (finish_entry original_order price final rm2)))))
                else
                  (case o_quantity original_order of
                     Some (Qty r) \<Rightarrow>
                       (case validate_signal original_order ps position_state rm1 of
                          ((is_valid, reason), rm2) \<Rightarrow>
                            Inr (apfst zero_reason
                                   (if is_valid then finish_entry original_order price r rm2
                                    else finish_entry (original_order\<lparr>o_reason := Some reason\<rparr>)
                                           price 0 rm2)))
                   | _ \<Rightarrow>
                       Inr (apfst zero_reason
                              (finish_entry
                                 (original_order\<lparr>o_reason := Some ''Invalid fixed quantity.''\<rparr>)
                                 price 0 rm1))))
             else if a = SELL \<or> a = COVER then
               Inr (apfst zero_reason (adjust_exit original_order (held position_state) rm1))
             else Inr (zero_reason original_order, rm1)))"

section \<open>Order handler (src/execution\_module/order\_handler.py)\<close>

text \<open>
  The handler holds a broker client of the abstract class \<open>BaseBroker\<close>, and optionally
  a risk manager and a Portfolio. The broker is a parameter here: its \<open>place_order\<close> is
  a function of the order and the broker's state that returns an execution result or
  raises, a raised exception \<open>e\<close> being kept as its text \<open>str(e)\<close>. A result of the
  handler is a dictionary of its own (status, message, and the signal or order it
  attaches) or the result of the broker.
\<close>

type_synonym 'b place_order_fn = "order \<Rightarrow> 'b \<Rightarrow> (string + exec_result) \<times> 'b"

datatype signal_result =
    Handler_result string string "order option"
  | Broker_result exec_result

record handler =
  h_risk_manager :: "risk_manager option"
  h_portfolio :: "portfolio option"

text \<open>
  \<open>Portfolio.get_summary\<close>, as the dictionary of its numeric entries (the time stamp is
  left out).
\<close>

definition get_summary :: "portfolio \<Rightarrow> portfolio_state \<times> portfolio" where
  "get_summary p =
     (case get_total_value (update_market_values None p) of
        (tv, p') \<Rightarrow>
          ([(''initial_cash'', initial_cash p'),
            (''current_cash'', cash p'),
            (''positions_market_value'', fsub tv (cash p')),
            (''total_portfolio_value'', tv),
            (''total_realized_pnl'', fsum (map (\<lambda>(s, pos). realized_pnl pos) (positions p'))),
            (''total_unrealized_pnl'',
               fsum (map (\<lambda>(s, pos). case unrealized_pnl pos of None \<Rightarrow> 0 | Some u \<Rightarrow> u)
                         (positions p'))),
            (''net_profit_loss'', fsub tv (initial_cash p')),
            (''num_trades'', real (length (trade_log p')))], p'))"

text \<open>
  Step 1 of \<open>process_signal\<close>, with a risk manager and a Portfolio: validation, then
  sizing. An exception of the sizing step propagates; comparing an adjusted quantity
  \<open>'all'\<close> with 0 raises \<open>TypeError\<close>. The outcome is an exception, a result that ends
  the call, or the order to go on with.
\<close>

definition risk_stage :: "order \<Rightarrow> risk_manager \<Rightarrow> portfolio
    \<Rightarrow> (py_error + (signal_result + order)) \<times> risk_manager \<times> portfolio" where
  "risk_stage signal rm pf =
     (case get_summary pf of
        (portfolio_summary, pf1) \<Rightarrow>
     (case get_position (o_symbol signal) pf1 of
        (current_position, pf2) \<Rightarrow>
     (case validate_signal signal portfolio_summary current_position rm of
        ((is_valid, reason), rm1) \<Rightarrow>
          if \<not> is_valid
          then (Inr (Inl (Handler_result ''rejected_risk'' reason (Some signal))), rm1, pf2)
          else
           (case adjust_order_size signal portfolio_summary current_position rm1 of
              Inl e \<Rightarrow> (Inl e, rm1, pf2)
            | Inr (adjusted_order, rm2) \<Rightarrow>
               (let zero = Inr (Inl (Handler_result ''rejected_risk_adjusted_to_zero''
                                  (case o_reason adjusted_order of
                                     None \<Rightarrow> ''Quantity zero after risk adjustment''
                                   | Some r \<Rightarrow> r)
                                  (Some signal)))
                in case o_quantity adjusted_order of
                     Some QtyAll \<Rightarrow> (Inl TypeError, rm2, pf2)
                   | Some (Qty q) \<Rightarrow>
                       if q \<le> 0 then (zero, rm2, pf2) else (Inr (Inr adjusted_order), rm2, pf2)
                   | None \<Rightarrow> (zero, rm2, pf2))))))"

text \<open>Steps 1 and 2: the risk stage when both collaborators are there, then the order type.\<close>

definition prepare_order :: "order \<Rightarrow> handler \<Rightarrow> (py_error + (signal_result + order)) \<times> handler"
  where
  "prepare_order signal h =
     (let (staged, h1) =
            (case (h_risk_manager h, h_portfolio h) of
               (Some rm, Some pf) \<Rightarrow>
                 (case risk_stage signal rm pf of
                    (out, rm', pf') \<Rightarrow>
                      (out, h\<lparr>h_risk_manager := Some rm', h_portfolio := Some pf'\<rparr>))
             | _ \<Rightarrow> (Inr (Inr signal), h))
      in case staged of
           Inr (Inr order_to_place) \<Rightarrow>
             (let typed = (case o_order_type order_to_place of
                             None \<Rightarrow> order_to_place\<lparr>o_order_type := Some MARKET\<rparr>
                           | Some t \<Rightarrow> order_to_place)
              in if o_order_type typed = Some LIMIT \<and>
                    (o_price typed = None \<or> o_price typed = Some 0)
                 then (Inr (Inl (Handler_result ''failed'' ''LIMIT order missing price''
                                   (Some typed))), h1)
                 else (Inr (Inr typed), h1))
         | other \<Rightarrow> (other, h1))"

text \<open>Step 3: the call of the broker inside \<open>try\<close>, and the \<open>except Exception\<close> clause.\<close>

definition place_with_catch :: "'b place_order_fn \<Rightarrow> order \<Rightarrow> 'b \<Rightarrow> signal_result \<times> 'b" where
  "place_with_catch place order_to_place b =
     (case place order_to_place b of
        (Inr execution_result, b') \<Rightarrow> (Broker_result execution_result, b')
      | (Inl e, b') \<Rightarrow>
          (Handler_result ''failed'' (''Exception during order placement: '' @ e)
             (Some order_to_place), b'))"

text \<open>\<open>process_signal\<close>. The signal \<open>None\<close> is the empty dictionary.\<close>

definition process_signal :: "'b place_order_fn \<Rightarrow> order option \<Rightarrow> handler \<Rightarrow> 'b
    \<Rightarrow> (py_error + signal_result) \<times> handler \<times> 'b" where
  "process_signal place signal_opt h b =
     (case signal_opt of
        None \<Rightarrow> (Inr (Handler_result ''ignored'' ''Signal was HOLD or invalid.'' None), h, b)
      | Some signal \<Rightarrow>
          if o_action signal = HOLD
          then (Inr (Handler_result ''ignored'' ''Signal was HOLD or invalid.'' None), h, b)
          else
           (case prepare_order signal h of
              (Inl e, h1) \<Rightarrow> (Inl e, h1, b)
            | (Inr (Inl r), h1) \<Rightarrow> (Inr r, h1, b)
            | (Inr (Inr order_to_place), h1) \<Rightarrow>
                (case place_with_catch place order_to_place b of
                   (r, b') \<Rightarrow> (Inr r, h1, b'))))"

text \<open>
  The simulated broker as a broker client: the text of the \<open>ValueError\<close> is that of
  \<open>float('all')\<close>.
\<close>

fun error_text :: "py_error \<Rightarrow> string" where
  "error_text ValueError = ''could not convert string to float: 'all'' @ [CHR 0x27]"
| "error_text TypeError = ''unsupported operand''"
| "error_text OverflowError = ''cannot convert float infinity to integer''"

definition simulated_place :: "broker place_order_fn" where
  "simulated_place ord b =
     (case place_order ord b of
        Inl e \<Rightarrow> (Inl (error_text e), b)
      | Inr (r, b') \<Rightarrow> (Inr r, b'))"

section \<open>Notions used to state the properties of the broker\<close>

text \<open>
  The pending queue as \<open>place_order\<close> builds it: a dictionary has one entry for a key,
  and every queued order carries its own key in \<open>order_id\<close>.
\<close>

definition queue_ok :: "(nat \<times> order) list \<Rightarrow> bool" where
  "queue_ok xs \<longleftrightarrow> distinct (map fst xs) \<and> (\<forall>(k, ord) \<in> set xs. o_order_id ord = Some k)"

text \<open>
  The stop condition and the limit condition in the words of the specification, for an
  action, the close of the bar and the stop or limit price.
\<close>

definition stop_condition :: "action \<Rightarrow> real \<Rightarrow> real \<Rightarrow> bool" where
  "stop_condition a c stp \<longleftrightarrow> (a = BUY \<and> c \<ge> stp) \<or> (a = SELL \<and> c \<le> stp)"

definition limit_condition :: "action \<Rightarrow> real \<Rightarrow> real \<Rightarrow> bool" where
  "limit_condition a c lmt \<longleftrightarrow> (a = BUY \<and> c \<le> lmt) \<or> (a = SELL \<and> c \<ge> lmt)"

text \<open>An order that the loop passes over: no bar for its symbol, or the test is false.\<close>

definition not_triggered :: "market_data \<Rightarrow> order \<Rightarrow> bool" where
  "not_triggered md ord \<longleftrightarrow>
     (case md (o_symbol ord) of None \<Rightarrow> True
      | Some market_bar \<Rightarrow> should_execute ord (bar_close market_bar) = Inr False)"

text \<open>
  No stored order has the status \<open>pending_execution\<close>, which \<open>_execute_order\<close> writes
  and overwrites within one call.
\<close>

definition no_transient_status :: "broker \<Rightarrow> bool" where
  "no_transient_status b \<longleftrightarrow>
     (\<forall>i info. orders b i = Some info \<longrightarrow> oi_status info \<noteq> pending_execution)"

text \<open>Two brokers with the same connection, price source and cost parameters.\<close>

definition same_config :: "broker \<Rightarrow> broker \<Rightarrow> bool" where
  "same_config b' b \<longleftrightarrow>
     is_connected b' = is_connected b \<and> broker_data_provider b' = broker_data_provider b \<and>
     commission_per_trade b' = commission_per_trade b \<and> slippage b' = slippage b \<and>
     fixed_slippage b' = fixed_slippage b \<and> percentage_slippage b' = percentage_slippage b"


section \<open>Example states\<close>

text \<open>A portfolio holding 100 shares of \<open>A\<close> bought at 10, and fills against it.\<close>

definition example_portfolio :: portfolio where
  "example_portfolio =
     \<lparr>initial_cash = 2000, cash = 1000,
      positions = [(''A'', empty_position\<lparr>quantity := 100, avg_price := 10, total_cost := 1000\<rparr>)],
      trade_log = [], market_data_provider = None, portfolio_history = []\<rparr>"

definition example_fill :: "symbol \<Rightarrow> action \<Rightarrow> real \<Rightarrow> real \<Rightarrow> real \<Rightarrow> fill_event" where
  "example_fill s a q pr c =
     \<lparr>fe_timestamp = ''2024-01-02T10:00:00'', fe_symbol = s, fe_action = a, fe_quantity = q,
      fe_price = pr, fe_commission = c, fe_order_id = None\<rparr>"

text \<open>
  The example portfolio with 1000.1 in cash (the binary64 number nearest to it), the
  price 9.99 likewise, and the example portfolio after its 100 shares of \<open>A\<close> were sold
  at 12 with commission 1, which leaves a closed position with realized profit 199.
\<close>

definition drifting_portfolio :: portfolio where
  "drifting_portfolio = example_portfolio\<lparr>cash := round64 (10001 / 10)\<rparr>"

definition price_9_99 :: real where
  "price_9_99 = round64 (999 / 100)"

definition closed_portfolio :: portfolio where
  "closed_portfolio = update_fill (example_fill ''A'' SELL 100 12 1) example_portfolio"

text \<open>
  A connected broker with 1000 in cash, 10 shares of \<open>A\<close>, one filled order and one
  pending LIMIT order.
\<close>

definition example_order :: "symbol \<Rightarrow> action \<Rightarrow> real \<Rightarrow> order_type \<Rightarrow> real option
    \<Rightarrow> real option \<Rightarrow> nat option \<Rightarrow> order" where
  "example_order s a q t pr stp i =
     \<lparr>o_symbol = s, o_action = a, o_quantity = Some (Qty q), o_order_type = Some t,
      o_price = pr, o_stop_price = stp, o_stop_loss_price = None, o_order_id = i,
      o_reason = None, o_calculated_risk = None\<rparr>"

definition example_broker :: broker where
  "example_broker =
     (connect (new_broker 1000))
       \<lparr>broker_positions :=
          [''A'' \<mapsto> \<lparr>bp_quantity = 10, bp_avg_price = 10, bp_market_value = 0,
                      bp_unrealized_pnl = 0\<rparr>],
        orders :=
          [0 \<mapsto> \<lparr>oi_order = example_order ''A'' BUY 10 MARKET (Some 10) None (Some 0),
                  oi_status = filled, oi_message = Some (Order_filled BUY 10 ''A'' 10),
                  oi_filled_quantity = Some 10, oi_avg_fill_price = Some 10\<rparr>,
           1 \<mapsto> \<lparr>oi_order = example_order ''A'' BUY 5 LIMIT (Some 9) None (Some 1),
                  oi_status = pending, oi_message = Some (Order_pending_execution LIMIT),
                  oi_filled_quantity = None, oi_avg_fill_price = None\<rparr>],
        pending_orders := [(1, example_order ''A'' BUY 5 LIMIT (Some 9) None (Some 1))],
        next_order_id := 2\<rparr>"

text \<open>Market data with one bar, for \<open>A\<close>, closing at \<open>c\<close>.\<close>

definition example_bars :: "real \<Rightarrow> market_data" where
  "example_bars c =
     [''A'' \<mapsto> \<lparr>bar_open = c, bar_high = c, bar_low = c, bar_close = c, bar_volume = 1000\<rparr>]"

text \<open>
  The example broker with a SELL STOP\_LIMIT order (stop 9, limit 8.5) queued behind its
  LIMIT order.
\<close>

definition stop_limit_order :: order where
  "stop_limit_order = example_order ''A'' SELL 5 STOP_LIMIT (Some (85 / 10)) (Some 9) (Some 2)"

definition stop_limit_broker :: broker where
  "stop_limit_broker =
     example_broker
       \<lparr>orders := (orders example_broker)
          (2 \<mapsto> \<lparr>oi_order = stop_limit_order, oi_status = pending,
                  oi_message = Some (Order_pending_execution STOP_LIMIT),
                  oi_filled_quantity = None, oi_avg_fill_price = None\<rparr>),
        pending_orders := pending_orders example_broker @ [(2, stop_limit_order)],
        portfolio_ref := Some example_portfolio,
        next_order_id := 3\<rparr>"


definition example_quotes :: "symbol \<Rightarrow> real option" where
  "example_quotes s = (if s = ''A'' then Some 12 else None)"





text \<open>
  Scenario A: a snapshot with total value and cash 100000, and a BUY signal for \<open>X\<close> at
  50 with the stop at 45 and a requested quantity. A second snapshot has the total value
  down to 85000, and an exit order is sized against 100 held units.
\<close>

definition scenario_state :: portfolio_state where
  "scenario_state = [(''total_value'', 100000), (''cash'', 100000)]"

definition scenario_signal :: "action \<Rightarrow> real \<Rightarrow> order" where
  "scenario_signal a q =
     \<lparr>o_symbol = ''X'', o_action = a, o_quantity = Some (Qty q), o_order_type = None,
      o_price = Some 50, o_stop_price = None, o_stop_loss_price = Some 45, o_order_id = None,
      o_reason = None, o_calculated_risk = None\<rparr>"

definition drawdown_state :: portfolio_state where
  "drawdown_state = [(''total_value'', 85000), (''cash'', 85000)]"

definition held_100 :: "position option" where
  "held_100 = Some (empty_position\<lparr>quantity := 100, avg_price := 50, total_cost := 5000\<rparr>)"

text \<open>A signal to buy \<open>'all'\<close> of \<open>A\<close>, and a handler without risk manager and Portfolio.\<close>

definition buy_all_signal :: order where
  "buy_all_signal =
     \<lparr>o_symbol = ''A'', o_action = BUY, o_quantity = Some QtyAll, o_order_type = None,
      o_price = Some 10, o_stop_price = None, o_stop_loss_price = None, o_order_id = None,
      o_reason = None, o_calculated_risk = None\<rparr>"

definition bare_handler :: handler where
  "bare_handler = \<lparr>h_risk_manager = None, h_portfolio = None\<rparr>"


section \<open>Properties of the Portfolio\<close>

text \<open>
  The equations that evaluate the model on the example states: the binary64 operations,
  the \<open>Portfolio\<close> and the broker.
\<close>

lemmas float_eval = round64_def floor_log2_def pow2_def round_half_even_def bit_length.simps
  Let_def fadd_def fsub_def fmul_def fdiv_def fsum_def

lemmas portfolio_eval = update_fill_def log_and_record_def record_portfolio_value_def
  get_total_value_def update_market_values_def revalue_def live_price_def buy_into_def
  sell_from_def realized_of_sale_def get_position_def empty_position_def example_fill_def
  example_portfolio_def new_portfolio_def

lemmas broker_eval = place_order_def execute_order_def execute_checked_def settle_def
  apply_slippage_def float_quantity_def result_of_def process_pending_orders_def
  should_execute_def limit_test_def stop_test_def price_le_def price_ge_def
  new_broker_def connect_def example_order_def example_bars_def example_quotes_def
  example_broker_def stop_limit_broker_def stop_limit_order_def


lemma revalue_keeps [simp]:
  "quantity (revalue m s pos) = quantity pos"
  "avg_price (revalue m s pos) = avg_price pos"
  "total_cost (revalue m s pos) = total_cost pos"
  "realized_pnl (revalue m s pos) = realized_pnl pos"
  by (simp_all add: revalue_def Let_def)

lemma update_market_values_keeps [simp]:
  "cash (update_market_values x p) = cash p"
  "trade_log (update_market_values x p) = trade_log p"
  "portfolio_history (update_market_values x p) = portfolio_history p"
  "market_data_provider (update_market_values x p) = market_data_provider p"
  "initial_cash (update_market_values x p) = initial_cash p"
  by (simp_all add: update_market_values_def Let_def)

lemma map_of_map_values:
  "map_of (map (\<lambda>(s, pos). if c s then (s, f s pos) else (s, pos)) al) k =
     map_option (\<lambda>pos. if c k then f k pos else pos) (map_of al k)"
  by (induction al) auto

lemma map_of_update_market_values_all:
  "map_of (positions (update_market_values None p)) s =
     map_option (revalue (market_data_provider p) s) (map_of (positions p) s)"
  using map_of_map_values [of "\<lambda>_. True" "revalue (market_data_provider p)" "positions p" s]
  by (simp add: update_market_values_def)

lemma map_of_update_market_values_one:
  "map_of (positions (update_market_values (Some s) p)) s =
     map_option (revalue (market_data_provider p) s) (map_of (positions p) s)"
  using map_of_map_values [of "\<lambda>k. if s = [] then True else k = s"
      "revalue (market_data_provider p)" "positions p" s]
  by (simp add: update_market_values_def)

lemma record_portfolio_value_keeps [simp]:
  "cash (record_portfolio_value p) = cash p"
  "trade_log (record_portfolio_value p) = trade_log p"
  "market_data_provider (record_portfolio_value p) = market_data_provider p"
  "positions (record_portfolio_value p) = positions (update_market_values None p)"
  by (simp_all add: record_portfolio_value_def get_total_value_def Let_def)

lemma log_and_record_keeps [simp]:
  "cash (log_and_record fe pnl p) = cash p"
  "market_data_provider (log_and_record fe pnl p) = market_data_provider p"
  by (simp_all add: log_and_record_def)

lemma map_of_log_and_record:
  "map_of (positions (log_and_record fe pnl p)) s =
     map_option (\<lambda>pos. revalue (market_data_provider p) s (revalue (market_data_provider p) s pos))
       (map_of (positions p) s)"
  by (simp add: log_and_record_def map_of_update_market_values_all option.map_comp comp_def)

lemma round64_zero [simp]: "round64 0 = 0"
  by (simp add: round64_def)

lemma fsub_self [simp]: "fsub x x = 0"
  by (simp add: fsub_def)

text \<open>
  What \<open>update_fill\<close> does with a SELL fill for more than is held of its symbol (a symbol
  without a stored position holds 0): nothing but the cash changes, and the cash is the
  old cash with the proceeds added and subtracted again, each time rounded.
\<close>

lemma oversell_rejection:
  assumes "fe_action fe = SELL" and "held_quantity p (fe_symbol fe) < fe_quantity fe"
  shows "positions (update_fill fe p) = positions p \<and>
         trade_log (update_fill fe p) = trade_log p \<and>
         portfolio_history (update_fill fe p) = portfolio_history p \<and>
         (cash (update_fill fe p) = cash p \<or>
          cash (update_fill fe p) =
            fsub (fadd (cash p) (fsub (fmul (fe_quantity fe) (fe_price fe)) (fe_commission fe)))
                 (fsub (fmul (fe_quantity fe) (fe_price fe)) (fe_commission fe)))"
  using assms
  by (auto simp: update_fill_def held_quantity_def Let_def split: option.splits)

text \<open>
  C1, at the failing input. The portfolio holds 100 shares of \<open>A\<close> and 1000.1 in cash. A
  SELL fill of 150 at 10 with commission 1 is rejected: the positions, the trade log and
  the portfolio history are unchanged, but the cash is not what it was. The proceeds 1499
  were added before the check and subtracted after it, and the cash came back one unit in
  the last place lower, 1000.0999999999999.
\<close>

theorem update_fill_oversell_cash_drift:
  "held_quantity drifting_portfolio ''A'' = 100 \<and>
   positions (update_fill (example_fill ''A'' SELL 150 10 1) drifting_portfolio) =
     positions drifting_portfolio \<and>
   trade_log (update_fill (example_fill ''A'' SELL 150 10 1) drifting_portfolio) =
     trade_log drifting_portfolio \<and>
   portfolio_history (update_fill (example_fill ''A'' SELL 150 10 1) drifting_portfolio) =
     portfolio_history drifting_portfolio \<and>
   cash drifting_portfolio = 8796972631510221 / 8796093022208 \<and>
   cash (update_fill (example_fill ''A'' SELL 150 10 1) drifting_portfolio) =
     8796972631510220 / 8796093022208 \<and>
   cash (update_fill (example_fill ''A'' SELL 150 10 1) drifting_portfolio) \<noteq>
     cash drifting_portfolio"
proof -
  let ?fe = "example_fill ''A'' SELL 150 10 1"
  have h: "held_quantity drifting_portfolio ''A'' = 100"
    by (simp add: held_quantity_def drifting_portfolio_def example_portfolio_def
        empty_position_def)
  have a: "fe_action ?fe = SELL" "fe_symbol ?fe = ''A''" "fe_quantity ?fe = 150"
    by (simp_all add: example_fill_def)
  have k: "positions (update_fill ?fe drifting_portfolio) = positions drifting_portfolio \<and>
         trade_log (update_fill ?fe drifting_portfolio) = trade_log drifting_portfolio \<and>
         portfolio_history (update_fill ?fe drifting_portfolio) =
           portfolio_history drifting_portfolio"
    using oversell_rejection [of ?fe drifting_portfolio] a h by simp
  have c0: "cash drifting_portfolio = 8796972631510221 / 8796093022208"
    by (simp add: drifting_portfolio_def example_portfolio_def float_eval)
  have c1: "cash (update_fill ?fe drifting_portfolio) = 8796972631510220 / 8796093022208"
    by (simp add: drifting_portfolio_def portfolio_eval float_eval)
  show ?thesis using h k c0 c1 by simp
qed

text \<open>
  C8, as amended. The portfolio stores no position for the symbol, or a closed one
  (quantity 0). A BUY fill of \<open>q\<close> at \<open>pr\<close> is followed by a SELL fill of \<open>q\<close> at \<open>pr\<close>,
  both without commission, where the cash, \<open>q\<close> and \<open>pr\<close> are binary64 numbers and
  neither \<open>q * pr\<close> nor the cash less \<open>q * pr\<close> needs rounding. Then the cash is again
  what it was before the BUY, the position is kept with quantity 0, and the sale adds 0
  to the realized profit: it is 0 when no position was stored, and the realized profit
  of the closed position otherwise.
\<close>

theorem buy_sell_round_trip:
  assumes "s \<noteq> []" and "0 < q" and "0 < pr"
    and "fe_symbol b = s" and "fe_action b = BUY" and "fe_quantity b = q"
    and "fe_price b = pr" and "fe_commission b = 0"
    and "fe_symbol e = s" and "fe_action e = SELL" and "fe_quantity e = q"
    and "fe_price e = pr" and "fe_commission e = 0"
    and "round64 q = q" and "round64 pr = pr" and "round64 (cash p) = cash p"
    and "round64 (q * pr) = q * pr" and "round64 (cash p - q * pr) = cash p - q * pr"
    and "case map_of (positions p) s of
           None \<Rightarrow> True
         | Some pos0 \<Rightarrow> quantity pos0 = 0 \<and> round64 (realized_pnl pos0) = realized_pnl pos0"
  shows "cash (update_fill e (update_fill b p)) = cash p \<and>
         (\<exists>pos. map_of (positions (update_fill e (update_fill b p))) s = Some pos \<and>
                quantity pos = 0 \<and>
                realized_pnl pos =
                  (case map_of (positions p) s of
                     None \<Rightarrow> 0 | Some pos0 \<Rightarrow> realized_pnl pos0))"
proof -
  let ?m = "market_data_provider p"
  let ?p1 = "update_fill b p"
  define start where
    "start = (case map_of (positions p) s of None \<Rightarrow> empty_position | Some pos0 \<Rightarrow> pos0)"
  define prior where
    "prior = (case map_of (positions p) s of None \<Rightarrow> 0 | Some pos0 \<Rightarrow> realized_pnl pos0)"
  let ?pos1 = "revalue ?m s (revalue ?m s (buy_into q pr start))"
  have st: "quantity start = 0" "realized_pnl start = prior" "round64 prior = prior"
    using assms(19) by (auto simp: start_def prior_def empty_position_def split: option.splits)
  have v: "round64 (pr * q) = q * pr"
    using assms(17) by (simp add: mult.commute)
  have c1: "cash ?p1 = cash p - q * pr"
    using assms(1-8,17,18)
    by (auto simp: update_fill_def Let_def fsub_def fadd_def fmul_def split: option.splits)
  have m1: "map_of (positions ?p1) s = Some ?pos1"
    using assms(1-8)
    by (auto simp: update_fill_def Let_def map_of_log_and_record update_conv' start_def
        split: option.splits)
  have q1: "quantity ?pos1 = q" "avg_price ?pos1 = pr" "realized_pnl ?pos1 = prior"
    using assms(2,14,15,17) st
    by (simp_all add: buy_into_def Let_def fadd_def fmul_def fdiv_def)
  have r: "realized_of_sale q pr 0 ?pos1 = 0"
    using q1 assms(17) v by (simp add: realized_of_sale_def fsub_def fmul_def)
  have c2: "cash (update_fill e ?p1) = cash p"
    using assms(1-3,9-13,16,17) c1 m1 q1
    by (simp add: update_fill_def Let_def fsub_def fadd_def fmul_def)
  have m2: "\<exists>pos. map_of (positions (update_fill e ?p1)) s = Some pos \<and>
                  quantity pos = 0 \<and> realized_pnl pos = prior"
    using assms(1-3,9-13) m1 q1 r st
    by (simp add: update_fill_def Let_def map_of_log_and_record update_conv' sell_from_def
        fadd_def)
  show ?thesis using c2 m2 by (simp add: prior_def)
qed

theorem buy_sell_round_trip_witness:
  "map_of (positions example_portfolio) ''B'' = None \<and>
   cash (update_fill (example_fill ''B'' SELL 30 7 0)
          (update_fill (example_fill ''B'' BUY 30 7 0) example_portfolio)) = 1000 \<and>
   (\<exists>pos. map_of (positions (update_fill (example_fill ''B'' SELL 30 7 0)
                   (update_fill (example_fill ''B'' BUY 30 7 0) example_portfolio))) ''B''
            = Some pos \<and> quantity pos = 0 \<and> realized_pnl pos = 0)"
proof -
  have n: "map_of (positions example_portfolio) ''B'' = None"
    by (simp add: example_portfolio_def)
  have c: "cash example_portfolio = 1000"
    by (simp add: example_portfolio_def)
  have r: "round64 30 = 30" "round64 7 = 7" "round64 (cash example_portfolio) = cash example_portfolio"
    "round64 (30 * 7) = 30 * 7"
    "round64 (cash example_portfolio - 30 * 7) = cash example_portfolio - 30 * 7"
    by (simp_all add: example_portfolio_def float_eval)
  have k: "case map_of (positions example_portfolio) ''B'' of
           None \<Rightarrow> True
         | Some pos0 \<Rightarrow> quantity pos0 = 0 \<and> round64 (realized_pnl pos0) = realized_pnl pos0"
    using n by simp
  from buy_sell_round_trip [where p = example_portfolio and s = "''B''" and q = 30 and pr = 7
      and b = "example_fill ''B'' BUY 30 7 0" and e = "example_fill ''B'' SELL 30 7 0",
      OF _ _ _ _ _ _ _ _ _ _ _ _ _ r k]
  show ?thesis using n c by (simp add: example_fill_def)
qed

text \<open>
  The claim C8 as it was stated has the cash restored exactly and the realized profit at
  0. From 1000.1 in cash, a BUY and a SELL of 7 at 9.99 without commission leave
  1000.1000000000001. And on a symbol that is not held but whose closed position is
  still stored with a realized profit of 199, the round trip leaves 199.
\<close>

theorem buy_sell_round_trip_counterexample:
  "map_of (positions drifting_portfolio) ''B'' = None \<and>
   cash (update_fill (example_fill ''B'' SELL 7 price_9_99 0)
          (update_fill (example_fill ''B'' BUY 7 price_9_99 0) drifting_portfolio)) \<noteq>
     cash drifting_portfolio \<and>
   fst (get_position ''A'' closed_portfolio) = None \<and>
   cash (update_fill (example_fill ''A'' SELL 30 7 0)
          (update_fill (example_fill ''A'' BUY 30 7 0) closed_portfolio)) =
     cash closed_portfolio \<and>
   map_option realized_pnl
     (map_of (positions (update_fill (example_fill ''A'' SELL 30 7 0)
                 (update_fill (example_fill ''A'' BUY 30 7 0) closed_portfolio))) ''A'') =
     Some 199"
  by (simp add: drifting_portfolio_def closed_portfolio_def price_9_99_def portfolio_eval
      float_eval)

text \<open>
  C10. \<open>get_position\<close> answers with a record exactly when the symbol is stored with a
  positive quantity, and then with that record revalued. A SELL fill of the whole held
  quantity keeps the record, with quantity 0 and the realized profit of the sale added,
  and \<open>get_position\<close> answers \<open>None\<close> for it afterwards, as it does for a symbol that
  was never stored.
\<close>

theorem get_position_hides_closed:
  "(fst (get_position s p) \<noteq> None \<longleftrightarrow>
      (\<exists>pos. map_of (positions p) s = Some pos \<and> 0 < quantity pos)) \<and>
   (map_of (positions p) s = Some pos \<and> 0 < quantity pos \<longrightarrow>
      fst (get_position s p) = Some (revalue (market_data_provider p) s pos)) \<and>
   (map_of (positions p) s = Some pos \<and> 0 < quantity pos \<and> s \<noteq> [] \<and> 0 < fe_price e \<and>
    fe_symbol e = s \<and> fe_action e = SELL \<and> fe_quantity e = quantity pos \<longrightarrow>
      (\<exists>pos'. map_of (positions (update_fill e p)) s = Some pos' \<and> quantity pos' = 0 \<and>
              realized_pnl pos' = fadd (realized_pnl pos)
                (realized_of_sale (quantity pos) (fe_price e) (fe_commission e) pos)) \<and>
      fst (get_position s (update_fill e p)) = None)"
proof (intro conjI impI)
  show "fst (get_position s p) \<noteq> None \<longleftrightarrow>
      (\<exists>pos. map_of (positions p) s = Some pos \<and> 0 < quantity pos)"
    by (auto simp: get_position_def Let_def map_of_update_market_values_one
        split: option.splits)
next
  assume "map_of (positions p) s = Some pos \<and> 0 < quantity pos"
  then show "fst (get_position s p) = Some (revalue (market_data_provider p) s pos)"
    by (simp add: get_position_def Let_def map_of_update_market_values_one)
next
  assume h: "map_of (positions p) s = Some pos \<and> 0 < quantity pos \<and> s \<noteq> [] \<and>
    0 < fe_price e \<and> fe_symbol e = s \<and> fe_action e = SELL \<and> fe_quantity e = quantity pos"
  then show "\<exists>pos'. map_of (positions (update_fill e p)) s = Some pos' \<and> quantity pos' = 0 \<and>
      realized_pnl pos' = fadd (realized_pnl pos)
        (realized_of_sale (quantity pos) (fe_price e) (fe_commission e) pos)"
    by (simp add: update_fill_def Let_def map_of_log_and_record update_conv' sell_from_def)
  from h show "fst (get_position s (update_fill e p)) = None"
    by (simp add: update_fill_def Let_def map_of_log_and_record update_conv' sell_from_def
        get_position_def)
qed

theorem get_position_hides_closed_witness:
  "fst (get_position ''A'' example_portfolio) \<noteq> None \<and>
   fst (get_position ''B'' example_portfolio) = None \<and>
   (\<exists>pos'. map_of (positions (update_fill (example_fill ''A'' SELL 100 12 1) example_portfolio))
             ''A'' = Some pos' \<and> quantity pos' = 0 \<and> realized_pnl pos' = 199) \<and>
   fst (get_position ''A'' (update_fill (example_fill ''A'' SELL 100 12 1) example_portfolio))
     = None"
proof -
  let ?pos = "empty_position\<lparr>quantity := 100, avg_price := 10, total_cost := 1000\<rparr>"
  have v: "fadd (realized_pnl ?pos) (realized_of_sale 100 12 1 ?pos) = 199"
    by (simp add: realized_of_sale_def empty_position_def float_eval)
  show ?thesis
    using get_position_hides_closed [of "''A''" example_portfolio ?pos
        "example_fill ''A'' SELL 100 12 1"]
      get_position_hides_closed [of "''B''" example_portfolio] v
    by (simp add: example_portfolio_def example_fill_def empty_position_def)
qed

section \<open>Properties of the simulated broker\<close>

lemma apply_slippage_update [simp]:
  "apply_slippage (b\<lparr>next_order_id := n\<rparr>) = apply_slippage b"
  "apply_slippage (b\<lparr>orders := os\<rparr>) = apply_slippage b"
  "apply_slippage (b\<lparr>pending_orders := ps\<rparr>) = apply_slippage b"
  "apply_slippage (b\<lparr>cash_balance := c\<rparr>) = apply_slippage b"
  "apply_slippage (b\<lparr>broker_positions := bp\<rparr>) = apply_slippage b"
  "apply_slippage (b\<lparr>trade_history := th\<rparr>) = apply_slippage b"
  "apply_slippage (b\<lparr>portfolio_ref := pf\<rparr>) = apply_slippage b"
  by (simp_all add: apply_slippage_def fun_eq_iff)





subsection \<open>The pending queue\<close>

lemma settle_keeps:
  "settle s a q fp b = (b', st, msg) \<Longrightarrow>
     pending_orders b' = pending_orders b \<and> orders b' = orders b \<and>
     is_connected b' = is_connected b \<and> portfolio_ref b' = portfolio_ref b \<and>
     trade_history b' = trade_history b \<and> next_order_id b' = next_order_id b \<and>
     broker_data_provider b' = broker_data_provider b \<and>
     commission_per_trade b' = commission_per_trade b \<and> slippage b' = slippage b \<and>
     fixed_slippage b' = fixed_slippage b \<and> percentage_slippage b' = percentage_slippage b"
  by (auto simp: settle_def Let_def split: if_splits option.splits)

lemma execute_checked_keeps:
  assumes "execute_checked k ord q pr b = (r, b')"
  shows "pending_orders b' = pending_orders b \<and> is_connected b' = is_connected b \<and>
         (\<forall>j. j \<noteq> k \<longrightarrow> orders b' j = orders b j) \<and>
         next_order_id b' = next_order_id b \<and>
         broker_data_provider b' = broker_data_provider b \<and>
         commission_per_trade b' = commission_per_trade b \<and> slippage b' = slippage b \<and>
         fixed_slippage b' = fixed_slippage b \<and> percentage_slippage b' = percentage_slippage b"
  using assms
  by (auto simp: execute_checked_def Let_def split: prod.splits if_splits dest!: settle_keeps)

lemma execute_order_keeps:
  assumes "execute_order ord b = Inr (r, b')"
  shows "pending_orders b' = pending_orders b \<and> is_connected b' = is_connected b \<and>
         (\<forall>j. o_order_id ord \<noteq> None \<and> o_order_id ord \<noteq> Some j \<longrightarrow> orders b' j = orders b j) \<and>
         broker_data_provider b' = broker_data_provider b \<and>
         commission_per_trade b' = commission_per_trade b \<and> slippage b' = slippage b \<and>
         fixed_slippage b' = fixed_slippage b \<and> percentage_slippage b' = percentage_slippage b"
  using assms
  by (auto simp: execute_order_def Let_def split: if_splits sum.splits option.splits
      dest!: execute_checked_keeps)

lemma in_delete: "k \<noteq> oid \<Longrightarrow> (oid, x) \<in> set ps \<Longrightarrow> (oid, x) \<in> set (AList.delete k ps)"
  by (auto simp: AList.delete_eq)

lemma pending_loop_keeps_entry:
  assumes "\<forall>(k, ord) \<in> set xs. o_order_id ord = Some k"
    and "\<forall>(k, ord) \<in> set xs. k = oid \<longrightarrow> ord = ord0"
    and "not_triggered md ord0"
    and "(oid, ord0) \<in> set (pending_orders b)"
  shows "(oid, ord0) \<in> set (pending_orders (snd (pending_loop md xs b))) \<and>
         orders (snd (pending_loop md xs b)) oid = orders b oid"
  using assms
proof (induction xs arbitrary: b)
  case Nil
  then show ?case by simp
next
  case (Cons x xs)
  obtain k ord where x: "x = (k, ord)" by (cases x)
  have tl: "\<forall>(k, ord) \<in> set xs. o_order_id ord = Some k"
    "\<forall>(k, ord) \<in> set xs. k = oid \<longrightarrow> ord = ord0"
    using Cons.prems by auto
  have id: "o_order_id ord = Some k" using Cons.prems x by auto
  note IH = Cons.IH [OF tl Cons.prems(3)]
  show ?case
  proof (cases "md (o_symbol ord)")
    case None
    then show ?thesis using x IH [OF Cons.prems(4)] by simp
  next
    case (Some market_bar)
    show ?thesis
    proof (cases "should_execute ord (bar_close market_bar)")
      case (Inl e)
      then show ?thesis using x Some Cons.prems(4) by simp
    next
      case (Inr t)
      show ?thesis
      proof (cases t)
        case False
        then show ?thesis using x Some Inr IH [OF Cons.prems(4)] by simp
      next
        case True
        have ne: "k \<noteq> oid"
        proof
          assume "k = oid"
          then have "ord = ord0" using Cons.prems(2) x by auto
          then show False using Cons.prems(3) Some Inr True by (simp add: not_triggered_def)
        qed
        let ?b1 = "b\<lparr>pending_orders := AList.delete k (pending_orders b)\<rparr>"
        let ?oc = "ord\<lparr>o_price := Some (bar_close market_bar), o_order_type := Some MARKET\<rparr>"
        have m1: "(oid, ord0) \<in> set (pending_orders ?b1)"
          using in_delete [OF ne Cons.prems(4)] by simp
        show ?thesis
        proof (cases "execute_order ?oc ?b1")
          case (Inl e)
          then show ?thesis using x Some Inr True m1 \<open>execute_order ?oc ?b1 = Inl e\<close>
            by (simp add: Let_def)
        next
          case r: (Inr rb)
          obtain r b2 where rb: "rb = (r, b2)" by (cases rb)
          from execute_order_keeps [OF r [unfolded rb]] id ne
          have k2: "pending_orders b2 = pending_orders ?b1" "orders b2 oid = orders b oid"
            by auto
          from IH [of b2] m1 k2 have "(oid, ord0) \<in> set (pending_orders (snd (pending_loop md xs b2))) \<and>
             orders (snd (pending_loop md xs b2)) oid = orders b oid" by simp
          then show ?thesis using x Some Inr True r rb by (simp add: Let_def)
        qed
      qed
    qed
  qed
qed

lemma pending_loop_keys:
  "fst ` set (pending_orders (snd (pending_loop md xs b))) \<subseteq> fst ` set (pending_orders b)"
proof (induction xs arbitrary: b)
  case Nil
  then show ?case by simp
next
  case (Cons x xs)
  obtain k ord where x: "x = (k, ord)" by (cases x)
  show ?case
  proof (cases "md (o_symbol ord)")
    case None
    then show ?thesis using x Cons.IH [of b] by simp
  next
    case (Some market_bar)
    show ?thesis
    proof (cases "should_execute ord (bar_close market_bar)")
      case (Inl e)
      then show ?thesis using x Some by simp
    next
      case (Inr t)
      show ?thesis
      proof (cases t)
        case False
        then show ?thesis using x Some Inr Cons.IH [of b] by simp
      next
        case True
        let ?b1 = "b\<lparr>pending_orders := AList.delete k (pending_orders b)\<rparr>"
        let ?oc = "ord\<lparr>o_price := Some (bar_close market_bar), o_order_type := Some MARKET\<rparr>"
        have d: "fst ` set (pending_orders ?b1) \<subseteq> fst ` set (pending_orders b)"
          by (auto simp: AList.delete_eq)
        show ?thesis
        proof (cases "execute_order ?oc ?b1")
          case (Inl e)
          then show ?thesis using x Some Inr True d by (simp add: Let_def)
        next
          case r: (Inr rb)
          obtain r b2 where rb: "rb = (r, b2)" by (cases rb)
          from execute_order_keeps [OF r [unfolded rb]]
          have k2: "pending_orders b2 = pending_orders ?b1" by simp
          from Cons.IH [of b2] k2 d
          have "fst ` set (pending_orders (snd (pending_loop md xs b2))) \<subseteq> fst ` set (pending_orders b)"
            by auto
          then show ?thesis using x Some Inr True r rb by (simp add: Let_def)
        qed
      qed
    qed
  qed
qed

lemma pending_loop_removes:
  assumes "(oid, ord0) \<in> set xs" and "md (o_symbol ord0) = Some market_bar"
    and "should_execute ord0 (bar_close market_bar) = Inr True"
    and "fst (pending_loop md xs b) = None"
  shows "oid \<notin> fst ` set (pending_orders (snd (pending_loop md xs b)))"
  using assms
proof (induction xs arbitrary: b)
  case Nil
  then show ?case by simp
next
  case (Cons x xs)
  obtain k ord where x: "x = (k, ord)" by (cases x)
  show ?case
  proof (cases "x = (oid, ord0)")
    case True
    let ?b1 = "b\<lparr>pending_orders := AList.delete oid (pending_orders b)\<rparr>"
    let ?oc = "ord0\<lparr>o_price := Some (bar_close market_bar), o_order_type := Some MARKET\<rparr>"
    have d: "oid \<notin> fst ` set (pending_orders ?b1)"
      by (auto simp: AList.delete_eq)
    show ?thesis
    proof (cases "execute_order ?oc ?b1")
      case (Inl e)
      then show ?thesis using True Cons.prems by (simp add: Let_def)
    next
      case r: (Inr rb)
      obtain r b2 where rb: "rb = (r, b2)" by (cases rb)
      from execute_order_keeps [OF r [unfolded rb]]
      have k2: "pending_orders b2 = pending_orders ?b1" by simp
      have "oid \<notin> fst ` set (pending_orders (snd (pending_loop md xs b2)))"
        using pending_loop_keys [of md xs b2] k2 d by auto
      then show ?thesis using True Cons.prems r rb by (simp add: Let_def)
    qed
  next
    case False
    then have mem: "(oid, ord0) \<in> set xs" using Cons.prems by auto
    note IH = Cons.IH [OF mem Cons.prems(2,3)]
    show ?thesis
    proof (cases "md (o_symbol ord)")
      case None
      then show ?thesis using x IH [of b] Cons.prems(4) by simp
    next
      case (Some mb)
      show ?thesis
      proof (cases "should_execute ord (bar_close mb)")
        case (Inl e)
        then show ?thesis using x Some Cons.prems(4) by simp
      next
        case (Inr t)
        show ?thesis
        proof (cases t)
          case False
          then show ?thesis using x Some Inr IH [of b] Cons.prems(4) by simp
        next
          case True
          let ?b1 = "b\<lparr>pending_orders := AList.delete k (pending_orders b)\<rparr>"
          let ?oc = "ord\<lparr>o_price := Some (bar_close mb), o_order_type := Some MARKET\<rparr>"
          show ?thesis
          proof (cases "execute_order ?oc ?b1")
            case (Inl e)
            then show ?thesis using x Some Inr True Cons.prems(4) by (simp add: Let_def)
          next
            case r: (Inr rb)
            obtain r b2 where rb: "rb = (r, b2)" by (cases rb)
            show ?thesis using x Some Inr True r rb IH [of b2] Cons.prems(4) by (simp add: Let_def)
          qed
        qed
      qed
    qed
  qed
qed

lemma should_execute_stop_limit:
  assumes "o_order_type ord = Some STOP_LIMIT" and "o_price ord = Some lmt" and "o_stop_price ord = Some stp"
  shows "should_execute ord c = Inr (stop_condition (o_action ord) c stp \<and> limit_condition (o_action ord) c lmt)"
  using assms
  by (auto simp: should_execute_def stop_test_def limit_test_def price_le_def price_ge_def
      stop_condition_def limit_condition_def)

text \<open>
  C4. A pending STOP\_LIMIT order with a stop price and a limit price is evaluated against
  the bar of its symbol by a connected broker. If the stop condition and the limit
  condition do not both hold at the close of that bar, the order stays in the pending
  queue and its stored record (status pending) is untouched; in particular this is so
  when the stop condition holds and the limit condition does not. If both hold, and no
  exception ends the call, the order leaves the queue to be executed.
\<close>

theorem stop_limit_needs_both:
  assumes "is_connected b" and "queue_ok (pending_orders b)" and "(oid, ord) \<in> set (pending_orders b)"
    and "o_order_type ord = Some STOP_LIMIT" and "o_price ord = Some lmt"
    and "o_stop_price ord = Some stp" and "md (o_symbol ord) = Some market_bar"
  shows "(stop_condition (o_action ord) (bar_close market_bar) stp \<and>
          limit_condition (o_action ord) (bar_close market_bar) lmt \<and>
          fst (process_pending_orders md b) = None \<longrightarrow>
            oid \<notin> fst ` set (pending_orders (snd (process_pending_orders md b)))) \<and>
         (\<not> (stop_condition (o_action ord) (bar_close market_bar) stp \<and>
             limit_condition (o_action ord) (bar_close market_bar) lmt) \<longrightarrow>
            (oid, ord) \<in> set (pending_orders (snd (process_pending_orders md b))) \<and>
            orders (snd (process_pending_orders md b)) oid = orders b oid)"
proof -
  have ne: "pending_orders b \<noteq> []" using assms(3) by auto
  have p: "process_pending_orders md b = pending_loop md (pending_orders b) b"
    using assms(1) ne by (simp add: process_pending_orders_def)
  note se = should_execute_stop_limit [OF assms(4,5,6), of "bar_close market_bar"]
  have ids: "\<forall>(k, ord) \<in> set (pending_orders b). o_order_id ord = Some k"
    using assms(2) by (simp add: queue_ok_def)
  have uniq: "\<forall>(k, x) \<in> set (pending_orders b). k = oid \<longrightarrow> x = ord"
    using assms(2,3) by (auto simp: queue_ok_def dest: eq_key_imp_eq_value)
  show ?thesis
  proof (intro conjI impI)
    assume "stop_condition (o_action ord) (bar_close market_bar) stp \<and>
          limit_condition (o_action ord) (bar_close market_bar) lmt \<and>
          fst (process_pending_orders md b) = None"
    then show "oid \<notin> fst ` set (pending_orders (snd (process_pending_orders md b)))"
      unfolding p
      using pending_loop_removes [of oid ord "pending_orders b" md market_bar b] assms(3,7) se
      by simp
  next
    assume n: "\<not> (stop_condition (o_action ord) (bar_close market_bar) stp \<and>
             limit_condition (o_action ord) (bar_close market_bar) lmt)"
    then have nt: "not_triggered md ord" using se assms(7) by (simp add: not_triggered_def)
    from pending_loop_keeps_entry [OF ids uniq nt assms(3)]
    show "(oid, ord) \<in> set (pending_orders (snd (process_pending_orders md b)))"
      and "orders (snd (process_pending_orders md b)) oid = orders b oid"
      unfolding p by simp_all
  qed
qed

theorem stop_limit_needs_both_witness:
  "queue_ok (pending_orders stop_limit_broker) \<and>
   stop_condition SELL 8 9 \<and> \<not> limit_condition SELL 8 (85 / 10) \<and>
   (2, stop_limit_order) \<in>
     set (pending_orders (snd (process_pending_orders (example_bars 8) stop_limit_broker))) \<and>
   orders (snd (process_pending_orders (example_bars 8) stop_limit_broker)) 2 =
     orders stop_limit_broker 2 \<and>
   stop_condition SELL (87 / 10) 9 \<and> limit_condition SELL (87 / 10) (85 / 10) \<and>
   2 \<notin> fst ` set (pending_orders
                     (snd (process_pending_orders (example_bars (87 / 10)) stop_limit_broker)))"
proof -
  have c: "is_connected stop_limit_broker" by (simp add: broker_eval)
  have q: "queue_ok (pending_orders stop_limit_broker)" by (simp add: broker_eval queue_ok_def)
  have m: "(2, stop_limit_order) \<in> set (pending_orders stop_limit_broker)"
    by (simp add: stop_limit_broker_def)
  have t: "o_order_type stop_limit_order = Some STOP_LIMIT" by (simp_all add: stop_limit_order_def example_order_def)
  have l: "o_price stop_limit_order = Some (85 / 10)" by (simp_all add: stop_limit_order_def example_order_def)
  have s: "o_stop_price stop_limit_order = Some 9" by (simp_all add: stop_limit_order_def example_order_def)
  have a: "o_action stop_limit_order = SELL" by (simp_all add: stop_limit_order_def example_order_def)
  have b8: "example_bars c (o_symbol stop_limit_order) =
      Some \<lparr>bar_open = c, bar_high = c, bar_low = c, bar_close = c, bar_volume = 1000\<rparr>" for c
    by (simp add: example_bars_def stop_limit_order_def example_order_def)
  have n8: "stop_condition SELL 8 9 \<and> \<not> limit_condition SELL 8 (85 / 10)"
    by (simp add: stop_condition_def limit_condition_def)
  have y87: "stop_condition SELL (87 / 10) 9 \<and> limit_condition SELL (87 / 10) (85 / 10)"
    by (simp add: stop_condition_def limit_condition_def)
  have e: "fst (process_pending_orders (example_bars (87 / 10)) stop_limit_broker) = None"
    by (simp add: broker_eval portfolio_eval float_eval)
  from stop_limit_needs_both [where b = stop_limit_broker and oid = 2 and ord = stop_limit_order
      and lmt = "85 / 10" and stp = 9 and md = "example_bars 8"
      and market_bar = "\<lparr>bar_open = 8, bar_high = 8, bar_low = 8, bar_close = 8, bar_volume = 1000\<rparr>",
      OF c q m t l s b8 [of 8]] n8 a
  have r8: "(2, stop_limit_order) \<in>
       set (pending_orders (snd (process_pending_orders (example_bars 8) stop_limit_broker))) \<and>
     orders (snd (process_pending_orders (example_bars 8) stop_limit_broker)) 2 =
       orders stop_limit_broker 2"
    by simp
  from stop_limit_needs_both [where b = stop_limit_broker and oid = 2 and ord = stop_limit_order
      and lmt = "85 / 10" and stp = 9 and md = "example_bars (87 / 10)"
      and market_bar = "\<lparr>bar_open = 87 / 10, bar_high = 87 / 10, bar_low = 87 / 10, bar_close = 87 / 10, bar_volume = 1000\<rparr>",
      OF c q m t l s b8 [of "87 / 10"]] y87 a e
  have r87: "2 \<notin> fst ` set (pending_orders
                     (snd (process_pending_orders (example_bars (87 / 10)) stop_limit_broker)))"
    by simp
  show ?thesis using q n8 y87 r8 r87 by blast
qed


lemma same_config_refl [simp]: "same_config b b"
  by (simp add: same_config_def)










lemma update_fill_buy_accepted:
  assumes "fe_symbol fe \<noteq> []" and "fe_action fe = BUY" and "0 < fe_quantity fe" and "0 < fe_price fe"
  shows "cash (update_fill fe p) =
           fsub (cash p) (fadd (fmul (fe_quantity fe) (fe_price fe)) (fe_commission fe)) \<and>
         trade_log (update_fill fe p) = trade_log p @
           [\<lparr>te_fill = fe, realized_pnl_trade = 0,
             cash_after_trade =
               fsub (cash p) (fadd (fmul (fe_quantity fe) (fe_price fe)) (fe_commission fe))\<rparr>]"
  using assms
  by (auto simp: update_fill_def Let_def log_and_record_def split: option.splits)






subsection \<open>Cancelling\<close>

lemma settle_status:
  "settle s a q fp b = (b', st, msg) \<Longrightarrow> st = filled \<or> st = rejected \<or> st = failed"
  by (auto simp: settle_def Let_def split: if_splits option.splits)

lemma execute_checked_no_transient:
  assumes "no_transient_status b"
  shows "no_transient_status (snd (execute_checked k ord q pr b))"
proof -
  obtain r b' where x: "execute_checked k ord q pr b = (r, b')"
    by (cases "execute_checked k ord q pr b") auto
  have "oi_status info \<noteq> pending_execution" if "orders b' j = Some info" for j info
  proof (cases "j = k")
    case False
    then have "orders b' j = orders b j"
      using execute_checked_keeps [OF x] by simp
    then show ?thesis using that assms by (simp add: no_transient_status_def)
  next
    case True
    then show ?thesis
      using x that
      by (auto simp: execute_checked_def Let_def split: prod.splits if_splits
          dest!: settle_keeps settle_status)
  qed
  then show ?thesis using x by (auto simp: no_transient_status_def)
qed

lemma execute_order_no_transient:
  assumes "no_transient_status b" and "execute_order ord b = Inr (r, b')"
  shows "no_transient_status b'"
proof -
  have n: "no_transient_status (b\<lparr>next_order_id := n\<rparr>)" for n
    using assms(1) by (simp add: no_transient_status_def)
  have e: "no_transient_status b'" if "execute_checked k ord q pr c = (r, b')"
    and "no_transient_status c" for k q pr c
    using execute_checked_no_transient [OF that(2), of k ord q pr] that(1) by simp
  show ?thesis
    using assms n
    by (auto simp: execute_order_def Let_def split: if_splits sum.splits option.splits
        intro: e)
qed

lemma place_order_no_transient:
  assumes "no_transient_status b" and "place_order ord b = Inr (r, b')"
  shows "no_transient_status b'"
proof -
  have n: "no_transient_status (b\<lparr>next_order_id := n\<rparr>)" for n
    using assms(1) by (simp add: no_transient_status_def)
  show ?thesis
    using assms(2) n [of "Suc (next_order_id b)"]
    by (auto simp: place_order_def Let_def no_transient_status_def
        split: if_splits sum.splits
        dest!: execute_order_no_transient [OF n [of "Suc (next_order_id b)"], unfolded no_transient_status_def])
qed

lemma cancel_order_no_transient:
  "no_transient_status b \<Longrightarrow> no_transient_status (snd (cancel_order oid b))"
  by (auto simp: cancel_order_def no_transient_status_def split: option.splits)

lemma pending_loop_no_transient:
  "no_transient_status b \<Longrightarrow> no_transient_status (snd (pending_loop md xs b))"
proof (induction xs arbitrary: b)
  case Nil
  then show ?case by simp
next
  case (Cons x xs)
  obtain k ord where x: "x = (k, ord)" by (cases x)
  have d: "no_transient_status (b\<lparr>pending_orders := ps\<rparr>)" for ps
    using Cons.prems by (simp add: no_transient_status_def)
  have ex: "no_transient_status (snd (pending_loop md xs b2))"
    if "execute_order oc (b\<lparr>pending_orders := ps\<rparr>) = Inr (r, b2)" for oc ps r b2
    using Cons.IH [OF execute_order_no_transient [OF d that]] .
  show ?case unfolding x
    using Cons.prems d
    by (auto simp: Let_def Cons.IH ex split: option.splits sum.splits bool.splits prod.splits)
qed

lemma new_broker_no_transient: "no_transient_status (connect (new_broker c))"
  by (simp add: no_transient_status_def new_broker_def connect_def)

lemma cancel_only_pending:
  assumes "no_transient_status b" and "r_status (fst (cancel_order oid b)) = cancelled"
  shows "\<exists>i. orders b oid = Some i \<and> oi_status i = pending"
proof -
  from assms(2) obtain i where i: "orders b oid = Some i"
    and s: "oi_status i \<notin> {filled, rejected, cancelled, failed}"
    by (auto simp: cancel_order_def result_of_def split: option.splits if_splits)
  have "oi_status i \<noteq> pending_execution" using assms(1) i by (simp add: no_transient_status_def)
  with s have "oi_status i = pending" by (cases "oi_status i") auto
  with i show ?thesis by simp
qed

text \<open>
  C7. Cancelling an order whose status is filled, rejected or cancelled fails, changes
  nothing in the broker (so the status of the order stays), and fails with the same
  result when repeated. A cancellation succeeds only for a stored order whose status is
  pending or the transient \<open>pending_execution\<close>, and stores it as cancelled; no stored
  order has the transient status between calls (a new broker has none, and placing,
  executing, cancelling and processing the queue keep it so), and then a cancellation
  succeeds only from pending.
\<close>

theorem cancel_order_terminal:
  "(orders b oid = Some info \<and> oi_status info \<in> {filled, rejected, cancelled} \<longrightarrow>
      r_status (fst (cancel_order oid b)) = failed \<and> snd (cancel_order oid b) = b \<and>
      orders (snd (cancel_order oid b)) oid = Some info \<and>
      cancel_order oid (snd (cancel_order oid b)) = cancel_order oid b) \<and>
   (r_status (fst (cancel_order oid b)) = cancelled \<longrightarrow>
      (\<exists>i. orders b oid = Some i \<and> oi_status i \<in> {pending, pending_execution} \<and>
           orders (snd (cancel_order oid b)) oid =
             Some (i\<lparr>oi_status := cancelled,
                     oi_message := Some (Text ''Order cancelled by user.'')\<rparr>))) \<and>
   (no_transient_status b \<and> r_status (fst (cancel_order oid b)) = cancelled \<longrightarrow>
      (\<exists>i. orders b oid = Some i \<and> oi_status i = pending))"
proof (intro conjI impI)
  assume "orders b oid = Some info \<and> oi_status info \<in> {filled, rejected, cancelled}"
  then show "r_status (fst (cancel_order oid b)) = failed"
    and "snd (cancel_order oid b) = b"
    and "orders (snd (cancel_order oid b)) oid = Some info"
    and "cancel_order oid (snd (cancel_order oid b)) = cancel_order oid b"
    by (auto simp: cancel_order_def result_of_def)
next
  assume c: "r_status (fst (cancel_order oid b)) = cancelled"
  then obtain i where i: "orders b oid = Some i"
    and s: "oi_status i \<notin> {filled, rejected, cancelled, failed}"
    by (auto simp: cancel_order_def result_of_def split: option.splits if_splits)
  from s have "oi_status i \<in> {pending, pending_execution}" by (cases "oi_status i") auto
  then show "\<exists>i. orders b oid = Some i \<and> oi_status i \<in> {pending, pending_execution} \<and>
           orders (snd (cancel_order oid b)) oid =
             Some (i\<lparr>oi_status := cancelled,
                     oi_message := Some (Text ''Order cancelled by user.'')\<rparr>)"
    using i s by (simp add: cancel_order_def)
next
  assume "no_transient_status b \<and> r_status (fst (cancel_order oid b)) = cancelled"
  then show "\<exists>i. orders b oid = Some i \<and> oi_status i = pending"
    using cancel_only_pending [of b oid] by blast
qed

theorem cancel_order_terminal_witness:
  "cancel_order 0 example_broker =
     (result_of failed None (Text ''Order cannot be cancelled (status: filled).''),
      example_broker) \<and>
   cancel_order 0 (snd (cancel_order 0 example_broker)) = cancel_order 0 example_broker \<and>
   no_transient_status example_broker \<and>
   r_status (fst (cancel_order 1 example_broker)) = cancelled \<and>
   (\<exists>i. orders example_broker 1 = Some i \<and> oi_status i = pending)"
proof -
  have n: "no_transient_status example_broker"
    by (simp add: no_transient_status_def example_broker_def new_broker_def connect_def)
  have c: "r_status (fst (cancel_order 1 example_broker)) = cancelled"
    by (simp add: example_broker_def new_broker_def connect_def cancel_order_def result_of_def)
  have f: "cancel_order 0 example_broker =
     (result_of failed None (Text ''Order cannot be cancelled (status: filled).''),
      example_broker)"
    by (simp add: example_broker_def new_broker_def connect_def cancel_order_def result_of_def)
  have o: "orders example_broker 0 =
      Some \<lparr>oi_order = example_order ''A'' BUY 10 MARKET (Some 10) None (Some 0),
        oi_status = filled, oi_message = Some (Order_filled BUY 10 ''A'' 10),
        oi_filled_quantity = Some 10, oi_avg_fill_price = Some 10\<rparr> \<and>
      oi_status \<lparr>oi_order = example_order ''A'' BUY 10 MARKET (Some 10) None (Some 0),
        oi_status = filled, oi_message = Some (Order_filled BUY 10 ''A'' 10),
        oi_filled_quantity = Some 10, oi_avg_fill_price = Some 10\<rparr>
        \<in> {filled, rejected, cancelled}"
    by (simp add: example_broker_def new_broker_def connect_def)
  from cancel_order_terminal [of example_broker 0 _ , THEN conjunct1, rule_format, OF o]
  have r: "cancel_order 0 (snd (cancel_order 0 example_broker)) = cancel_order 0 example_broker"
    by simp
  from cancel_order_terminal [of example_broker 1, THEN conjunct2, THEN conjunct2, rule_format]
    n c
  have p: "\<exists>i. orders example_broker 1 = Some i \<and> oi_status i = pending"
    by blast
  show ?thesis using f r n c p by blast
qed

section \<open>Properties of the risk manager\<close>

lemma update_keeps_limit [simp]:
  "max_drawdown_limit_pct (update_portfolio_state ps rm) = max_drawdown_limit_pct rm"
  by (simp add: update_portfolio_state_def split: option.splits)

lemma high_water_mark_mono:
  "high_water_mark rm \<le> high_water_mark (update_portfolio_state ps rm)"
  by (simp add: update_portfolio_state_def split: option.splits)

lemma remove_keeps [simp]:
  "high_water_mark (remove_position_risk s rm) = high_water_mark rm"
  "current_capital (remove_position_risk s rm) = current_capital rm"
  by (simp_all add: remove_position_risk_def)

lemma breaker_blocks_entries:
  assumes d: "max_drawdown_limit_pct rm \<le> calculate_current_drawdown (update_portfolio_state ps rm)"
    and a: "o_action ord = BUY \<or> o_action ord = SHORT"
  shows "\<exists>adj rm'. adjust_order_size ord ps pos rm = Inr (adj, rm') \<and>
           o_quantity adj = Some (Qty 0) \<and> o_reason adj \<noteq> None \<and>
           current_capital rm' = current_capital (update_portfolio_state ps rm) \<and>
           high_water_mark rm' = high_water_mark (update_portfolio_state ps rm)"
proof (cases "o_price ord")
  case None
  then show ?thesis by (simp add: adjust_order_size_def Let_def)
next
  case (Some price)
  show ?thesis
  proof (cases "o_action ord = NoAction \<or> o_symbol ord = [] \<or> price = 0 \<or> price \<le> 0")
    case True
    then show ?thesis using Some by (simp add: adjust_order_size_def Let_def)
  next
    case False
    then show ?thesis using Some a d by (simp add: adjust_order_size_def Let_def)
  qed
qed

lemma exits_sized_to_holding:
  assumes a: "o_action ord = SELL \<or> o_action ord = COVER"
    and "o_symbol ord \<noteq> []" and "o_price ord = Some price" and "0 < price"
  shows "\<exists>adj rm'. adjust_order_size ord ps pos rm = Inr (adj, rm') \<and>
           o_quantity adj = Some (Qty (whole (max 0
              (case o_quantity ord of
                 Some QtyAll \<Rightarrow> held pos | Some (Qty r) \<Rightarrow> min r (held pos) | None \<Rightarrow> 0))))"
proof -
  have na: "o_action ord \<noteq> NoAction" "o_action ord \<noteq> BUY" "o_action ord \<noteq> SHORT"
    using a by auto
  have q: "o_quantity (zero_reason x) = o_quantity x" for x
    by (simp add: zero_reason_def)
  have e: "o_quantity (fst (adjust_exit ord h r)) = Some (Qty (whole (max 0
              (case o_quantity ord of
                 Some QtyAll \<Rightarrow> h | Some (Qty r) \<Rightarrow> min r h | None \<Rightarrow> 0))))" for h r
    by (simp add: adjust_exit_def Let_def)
  obtain x r where x: "adjust_exit ord (held pos) (update_portfolio_state ps rm) = (x, r)"
    by (cases "adjust_exit ord (held pos) (update_portfolio_state ps rm)") auto
  have "adjust_order_size ord ps pos rm = Inr (zero_reason x, r)"
    using assms na x by (simp add: adjust_order_size_def Let_def)
  moreover have "o_quantity x = Some (Qty (whole (max 0
              (case o_quantity ord of
                 Some QtyAll \<Rightarrow> held pos | Some (Qty r) \<Rightarrow> min r (held pos) | None \<Rightarrow> 0))))"
    using e [of "held pos" "update_portfolio_state ps rm"] x by simp
  ultimately show ?thesis by (simp add: q)
qed

text \<open>
  C3. Take any state of the risk manager and any pushed snapshot after which the drawdown
  (high-water mark minus capital, over the high-water mark) is at or above
  \<open>max_drawdown_limit_pct\<close>. Then \<open>adjust_order_size\<close> returns every BUY and every SHORT
  order with quantity 0 and a reason, and leaves capital and high-water mark as the
  snapshot set them; a SELL or COVER order with a symbol and a positive price is sized
  as always, to the requested quantity cut to the holding, in whole units. The
  high-water mark never decreases with a snapshot. As the statement is about every
  state, it covers every later call for which the drawdown is still at or above the
  limit.
\<close>

theorem drawdown_breaker:
  assumes "max_drawdown_limit_pct rm \<le> calculate_current_drawdown (update_portfolio_state ps rm)"
  shows "(o_action ord = BUY \<or> o_action ord = SHORT \<longrightarrow>
            (\<exists>adj rm'. adjust_order_size ord ps pos rm = Inr (adj, rm') \<and>
               o_quantity adj = Some (Qty 0) \<and> o_reason adj \<noteq> None \<and>
               current_capital rm' = current_capital (update_portfolio_state ps rm) \<and>
               high_water_mark rm' = high_water_mark (update_portfolio_state ps rm))) \<and>
         ((o_action ord = SELL \<or> o_action ord = COVER) \<and> o_symbol ord \<noteq> [] \<and>
          o_price ord = Some price \<and> 0 < price \<longrightarrow>
            (\<exists>adj rm'. adjust_order_size ord ps pos rm = Inr (adj, rm') \<and>
               o_quantity adj = Some (Qty (whole (max 0
                 (case o_quantity ord of
                    Some QtyAll \<Rightarrow> held pos
                  | Some (Qty r) \<Rightarrow> min r (held pos)
                  | None \<Rightarrow> 0)))))) \<and>
         high_water_mark rm \<le> high_water_mark (update_portfolio_state ps rm)"
proof (intro conjI impI)
  assume "o_action ord = BUY \<or> o_action ord = SHORT"
  then show "\<exists>adj rm'. adjust_order_size ord ps pos rm = Inr (adj, rm') \<and>
               o_quantity adj = Some (Qty 0) \<and> o_reason adj \<noteq> None \<and>
               current_capital rm' = current_capital (update_portfolio_state ps rm) \<and>
               high_water_mark rm' = high_water_mark (update_portfolio_state ps rm)"
    by (rule breaker_blocks_entries [OF assms])
next
  assume "(o_action ord = SELL \<or> o_action ord = COVER) \<and> o_symbol ord \<noteq> [] \<and>
          o_price ord = Some price \<and> 0 < price"
  then show "\<exists>adj rm'. adjust_order_size ord ps pos rm = Inr (adj, rm') \<and>
               o_quantity adj = Some (Qty (whole (max 0
                 (case o_quantity ord of
                    Some QtyAll \<Rightarrow> held pos
                  | Some (Qty r) \<Rightarrow> min r (held pos)
                  | None \<Rightarrow> 0))))"
    using exits_sized_to_holding [of ord price ps pos rm] by blast
next
  show "high_water_mark rm \<le> high_water_mark (update_portfolio_state ps rm)"
    by (rule high_water_mark_mono)
qed

theorem drawdown_breaker_witness:
  "max_drawdown_limit_pct (new_risk_manager 100000) \<le>
     calculate_current_drawdown (update_portfolio_state drawdown_state (new_risk_manager 100000)) \<and>
   (\<exists>adj rm'. adjust_order_size (scenario_signal BUY 100) drawdown_state None
                (new_risk_manager 100000) = Inr (adj, rm') \<and>
      o_quantity adj = Some (Qty 0) \<and> o_reason adj \<noteq> None \<and> high_water_mark rm' = 100000) \<and>
   (\<exists>adj rm'. adjust_order_size (scenario_signal SELL 150) drawdown_state held_100
                (new_risk_manager 100000) = Inr (adj, rm') \<and>
      o_quantity adj = Some (Qty 100))"
proof -
  let ?rm = "new_risk_manager 100000"
  have d: "max_drawdown_limit_pct ?rm \<le>
      calculate_current_drawdown (update_portfolio_state drawdown_state ?rm)"
    by code_simp
  have h: "high_water_mark (update_portfolio_state drawdown_state ?rm) = 100000"
    by code_simp
  have s: "(o_action (scenario_signal SELL 150) = SELL \<or>
            o_action (scenario_signal SELL 150) = COVER) \<and>
      o_symbol (scenario_signal SELL 150) \<noteq> [] \<and>
      o_price (scenario_signal SELL 150) = Some 50 \<and> (0::real) < 50"
    by (simp add: scenario_signal_def)
  have w: "whole (max 0 (case o_quantity (scenario_signal SELL 150) of
                 Some QtyAll \<Rightarrow> held held_100
               | Some (Qty r) \<Rightarrow> min r (held held_100)
               | None \<Rightarrow> 0)) = 100"
    by (simp add: scenario_signal_def held_100_def held_def whole_def empty_position_def)
  have b: "o_action (scenario_signal BUY 100) = BUY \<or> o_action (scenario_signal BUY 100) = SHORT"
    by (simp add: scenario_signal_def)
  from drawdown_breaker [OF d, of "scenario_signal BUY 100" None, THEN conjunct1, rule_format, OF b]
  have r1: "\<exists>adj rm'. adjust_order_size (scenario_signal BUY 100) drawdown_state None ?rm
        = Inr (adj, rm') \<and>
      o_quantity adj = Some (Qty 0) \<and> o_reason adj \<noteq> None \<and> high_water_mark rm' = 100000"
    using h by auto
  from drawdown_breaker [OF d, of "scenario_signal SELL 150" held_100 50,
      THEN conjunct2, THEN conjunct1, rule_format, OF s]
  have r2: "\<exists>adj rm'. adjust_order_size (scenario_signal SELL 150) drawdown_state held_100 ?rm
        = Inr (adj, rm') \<and> o_quantity adj = Some (Qty 100)"
    using w by auto
  show ?thesis using d r1 r2 by blast
qed

text \<open>
  C2, as amended. A risk manager with the defaults of the source (percent-risk sizing,
  2 percent risk per trade) and capital 100000 receives a snapshot with total value and
  cash 100000 and a BUY signal at 50 with the stop at 45. The risk budget is 2000, the
  risk of one unit is 5, and the quantity that the risk budget allows is 400. The maximum
  sized quantity that \<open>calculate_max_position_size\<close> returns is 200, because the order
  value limit (10 percent of the capital, 10000, at price 50) is the smallest of the
  limits. A requested quantity of 100 is adjusted to 100, and the risk ledger then holds
  500 for the symbol and 500 in total.
\<close>

theorem sizing_scenario:
  "risk_amount_for_this_trade (update_portfolio_state scenario_state (new_risk_manager 100000))
     = 2000 \<and>
   \<bar>50 - 45\<bar> = (5::real) \<and> 2000 / \<bar>50 - 45\<bar> = (400::real) \<and>
   fst (calculate_max_position_size ''X'' 50 scenario_state (Some 45) BUY
          (new_risk_manager 100000)) = Finite 200 \<and>
   o_quantity (fst (projr (adjust_order_size (scenario_signal BUY 100) scenario_state None
                             (new_risk_manager 100000)))) = Some (Qty 100) \<and>
   positions_risk (snd (projr (adjust_order_size (scenario_signal BUY 100) scenario_state None
                                 (new_risk_manager 100000)))) ''X'' = Some 500 \<and>
   current_total_risk_amount
     (snd (projr (adjust_order_size (scenario_signal BUY 100) scenario_state None
                    (new_risk_manager 100000)))) = 500"
  by code_simp

text \<open>
  The claim C2 as it was stated has 400 as the maximum sized quantity. In its scenario
  \<open>calculate_max_position_size\<close> returns 200, and a requested quantity of 300 is
  adjusted to 200.
\<close>

theorem sizing_scenario_maximum_counterexample:
  "fst (calculate_max_position_size ''X'' 50 scenario_state (Some 45) BUY
          (new_risk_manager 100000)) \<noteq> Finite 400 \<and>
   o_quantity (fst (projr (adjust_order_size (scenario_signal BUY 300) scenario_state None
                             (new_risk_manager 100000)))) = Some (Qty 200)"
  by code_simp

section \<open>Properties of the order handler\<close>

text \<open>
  C9. For every broker, signal and handler: when the order that \<open>process_signal\<close> has
  prepared is handed to \<open>place_order\<close> and \<open>place_order\<close> raises an exception with
  text \<open>msg\<close>, \<open>process_signal\<close> returns the result with status \<open>failed\<close> whose
  message carries \<open>msg\<close>. An exception that does leave \<open>process_signal\<close> was raised
  while the order was prepared, before the broker was called, so it is the same with any
  other broker.
\<close>

theorem placement_exception_is_caught:
  "(fst (prepare_order signal h) = Inr (Inr order_to_place) \<and> o_action signal \<noteq> HOLD \<and>
    place order_to_place b = (Inl msg, b') \<longrightarrow>
      process_signal place (Some signal) h b =
        (Inr (Handler_result ''failed'' (''Exception during order placement: '' @ msg)
                (Some order_to_place)),
         snd (prepare_order signal h), b')) \<and>
   (fst (process_signal place signal_opt h b) = Inl e \<longrightarrow>
      (\<exists>sig. signal_opt = Some sig \<and> fst (prepare_order sig h) = Inl e) \<and>
      fst (process_signal other_place signal_opt h other_b) = Inl e)"
proof (intro conjI impI)
  assume a: "fst (prepare_order signal h) = Inr (Inr order_to_place) \<and> o_action signal \<noteq> HOLD \<and>
    place order_to_place b = (Inl msg, b')"
  obtain x h1 where p: "prepare_order signal h = (x, h1)"
    by (cases "prepare_order signal h") auto
  with a have x: "x = Inr (Inr order_to_place)" by simp
  show "process_signal place (Some signal) h b =
        (Inr (Handler_result ''failed'' (''Exception during order placement: '' @ msg)
                (Some order_to_place)),
         snd (prepare_order signal h), b')"
    using a p x by (simp add: process_signal_def place_with_catch_def)
next
  assume e: "fst (process_signal place signal_opt h b) = Inl e"
  then obtain sig where s: "signal_opt = Some sig" and nh: "o_action sig \<noteq> HOLD"
    by (cases signal_opt) (auto simp: process_signal_def split: if_splits)
  obtain x h1 where p: "prepare_order sig h = (x, h1)"
    by (cases "prepare_order sig h") auto
  have x: "x = Inl e"
    using e s nh p
    by (cases x) (auto simp: process_signal_def split: sum.splits prod.splits)
  show "\<exists>sig. signal_opt = Some sig \<and> fst (prepare_order sig h) = Inl e"
    using s p x by simp
  show "fst (process_signal other_place signal_opt h other_b) = Inl e"
    using s nh p x by (simp add: process_signal_def)
qed

theorem placement_exception_is_caught_witness:
  "fst (prepare_order buy_all_signal bare_handler) =
     Inr (Inr (buy_all_signal\<lparr>o_order_type := Some MARKET\<rparr>)) \<and>
   simulated_place (buy_all_signal\<lparr>o_order_type := Some MARKET\<rparr>) example_broker =
     (Inl (error_text ValueError), example_broker) \<and>
   process_signal simulated_place (Some buy_all_signal) bare_handler example_broker =
     (Inr (Handler_result ''failed''
            (''Exception during order placement: '' @ error_text ValueError)
            (Some (buy_all_signal\<lparr>o_order_type := Some MARKET\<rparr>))),
      bare_handler, example_broker)"
proof -
  let ?o = "buy_all_signal\<lparr>o_order_type := Some MARKET\<rparr>"
  have p: "prepare_order buy_all_signal bare_handler = (Inr (Inr ?o), bare_handler)"
    by (simp add: prepare_order_def bare_handler_def buy_all_signal_def)
  have c: "is_connected example_broker"
    by (simp add: example_broker_def connect_def)
  have s: "simulated_place ?o example_broker =
      (Inl (error_text ValueError), example_broker)"
    using c by (simp add: simulated_place_def place_order_def float_quantity_def
        buy_all_signal_def Let_def)
  have a: "o_action buy_all_signal \<noteq> HOLD" by (simp add: buy_all_signal_def)
  have h: "fst (prepare_order buy_all_signal bare_handler) = Inr (Inr ?o) \<and>
      o_action buy_all_signal \<noteq> HOLD \<and>
      simulated_place ?o example_broker =
        (Inl (error_text ValueError), example_broker)"
    using p a s by simp
  from placement_exception_is_caught [where signal = buy_all_signal and h = bare_handler
      and order_to_place = "?o" and place = simulated_place and b = example_broker
      and msg = "error_text ValueError" and b' = example_broker,
      THEN conjunct1, rule_format, OF h]
  show ?thesis using p s by simp
qed

end
